theory Spec2Isabelle
  imports Main "HOL-Library.Multiset" "HOL-Library.Word"
begin

text \<open>
  The assignment routes of the backend (the router of \<^verbatim>\<open>/api/assignments\<close>: create,
  list, submit, list submissions, grade, update, delete) and the lecture upload of
  \<^verbatim>\<open>routes/lectures.js\<close>, as functions from the stored state and a request to a
  response and the state left behind. Line numbers refer to the router's file.
\<close>

section \<open>Strings\<close>

text \<open>
  A JavaScript string is a sequence of UTF-16 code units, and that is what the
  validators and the comparisons of the routes read. \<open>str\<close> writes one down from its
  Latin-1 characters.
\<close>

type_synonym code_unit = "16 word"

type_synonym js_string = "code_unit list"

definition str :: "string \<Rightarrow> js_string" where
  "str s = map of_char s"

section \<open>Data model\<close>

text \<open>
  Identifiers are the hexadecimal strings that \<^verbatim>\<open>ObjectId.toString()\<close> yields and that
  \<^verbatim>\<open>req.user.id\<close> and \<^verbatim>\<open>req.params.id\<close> carry; the handlers compare them as strings.
  Timestamps are milliseconds since the epoch, the number that comparing two
  \<^verbatim>\<open>Date\<close> objects compares.
\<close>

type_synonym oid = js_string

datatype role = Admin | Instructor | Student

text \<open>\<^verbatim>\<open>req.user\<close>, as the \<^verbatim>\<open>auth\<close> middleware leaves it for the handlers.\<close>

record actor =
  user_id :: oid
  user_role :: role

datatype status = Submitted | Late | Graded

record attachment =
  att_name :: js_string
  att_url :: js_string
  att_type :: js_string

text \<open>
  An embedded submission. \<open>marks\<close> holds the numeral text of the request body, the value
  the grade handler assigns; it is absent until the submission is graded.
\<close>

record submission =
  student :: oid
  content :: js_string
  attachments :: "attachment list"
  status :: status
  marks :: "js_string option"
  feedback :: "js_string option"

record assignment =
  a_id :: oid
  title :: js_string
  description :: js_string
  course :: oid
  instructor :: oid
  dueDate :: int
  maxMarks :: js_string
  submissions :: "submission list"
  createdAt :: int

record course_doc =
  c_id :: oid
  c_instructor :: oid
  students :: "oid list"
  lectures :: "oid list"
  assignments :: "oid list"
  isPublished :: bool

record lecture =
  l_id :: oid
  l_title :: js_string
  l_description :: "js_string option"
  l_course :: oid
  videoUrl :: js_string
  videoId :: js_string
  duration :: "int option"
  l_order :: js_string
  isPreview :: bool
  l_notes :: "js_string option"

text \<open>What Cloudinary's \<^verbatim>\<open>upload_stream\<close> callback receives on success.\<close>

record upload_result =
  secure_url :: js_string
  public_id :: js_string
  up_duration :: "int option"

text \<open>A file as multer's memory storage hands it over; \<open>f_size\<close> is the length of its buffer in bytes.\<close>

record upload_file =
  originalname :: js_string
  mimetype :: js_string
  f_size :: nat

text \<open>
  The persistent state: the three Mongoose collections the routes use, each a list of
  documents with pairwise distinct ids, and the objects held by the Blob Store.
\<close>

record db =
  Course :: "course_doc list"
  Assignment :: "assignment list"
  Lecture :: "lecture list"
  cloudinary :: "upload_result list"

section \<open>Responses\<close>

text \<open>
  One constructor per rejection the modelled routes can answer with. \<open>AccessDenied\<close>,
  \<open>UploadRejected\<close> and \<open>OnlyVideoFiles\<close> come from middleware (\<^verbatim>\<open>authorize\<close>, multer's
  limits, multer's \<^verbatim>\<open>fileFilter\<close>) that ends the request before the handler runs;
  \<open>ServerError\<close> is the handlers' \<^verbatim>\<open>catch\<close> branch.
\<close>

datatype error =
    AccessDenied
  | UploadRejected
  | OnlyVideoFiles
  | ValidationErrors
  | CourseNotFound
  | AssignmentNotFound
  | SubmissionNotFound
  | NotAuthorizedCreate
  | NotAuthorizedView
  | NotEnrolled
  | AlreadySubmitted
  | DeadlinePassed
  | NotAuthorizedViewSubmissions
  | NotAuthorizedGrade
  | NotAuthorizedUpdate
  | NotAuthorizedDelete
  | VideoRequired
  | NotAuthorizedAddLecture
  | ServerError

text \<open>The status code the handler sets; \<open>None\<close> where the response is written outside the routes.\<close>

fun http_status :: "error \<Rightarrow> nat option" where
  "http_status AccessDenied = None"
| "http_status UploadRejected = None"
| "http_status OnlyVideoFiles = None"
| "http_status ValidationErrors = Some 400"
| "http_status CourseNotFound = Some 404"
| "http_status AssignmentNotFound = Some 404"
| "http_status SubmissionNotFound = Some 404"
| "http_status NotAuthorizedCreate = Some 403"
| "http_status NotAuthorizedView = Some 403"
| "http_status NotEnrolled = Some 403"
| "http_status AlreadySubmitted = Some 400"
| "http_status DeadlinePassed = Some 400"
| "http_status NotAuthorizedViewSubmissions = Some 403"
| "http_status NotAuthorizedGrade = Some 403"
| "http_status NotAuthorizedUpdate = Some 403"
| "http_status NotAuthorizedDelete = Some 403"
| "http_status VideoRequired = Some 400"
| "http_status NotAuthorizedAddLecture = Some 403"
| "http_status ServerError = Some 500"

text \<open>
  The \<^verbatim>\<open>message\<close> of the JSON body, where the routes write one: validation failures
  carry the list of errors instead, and the \<^verbatim>\<open>catch\<close> branches each name their own
  route.
\<close>

fun message :: "error \<Rightarrow> string option" where
  "message CourseNotFound = Some ''Course not found''"
| "message AssignmentNotFound = Some ''Assignment not found''"
| "message SubmissionNotFound = Some ''Submission not found''"
| "message NotAuthorizedCreate = Some ''Not authorized to create assignments for this course''"
| "message NotAuthorizedView = Some ''Not authorized to view assignments''"
| "message NotEnrolled = Some ''Not enrolled in this course''"
| "message AlreadySubmitted = Some ''Assignment already submitted''"
| "message DeadlinePassed = Some ''Assignment submission deadline has passed''"
| "message NotAuthorizedViewSubmissions = Some ''Not authorized to view submissions''"
| "message NotAuthorizedGrade = Some ''Not authorized to grade this assignment''"
| "message NotAuthorizedUpdate = Some ''Not authorized to update this assignment''"
| "message NotAuthorizedDelete = Some ''Not authorized to delete this assignment''"
| "message VideoRequired = Some ''Video file is required''"
| "message NotAuthorizedAddLecture = Some ''Not authorized to add lectures to this course''"
| "message OnlyVideoFiles = Some ''Only video files are allowed''"
| "message _ = None"

text \<open>
  The error taxonomy of the specification (section 7), and the kind each rejection of the
  code belongs to by that section's wording: a missing relationship or role is
  \<open>Forbidden\<close>, an absent resource \<open>NotFound\<close>, a duplicate submission \<open>Conflict\<close>, malformed
  or out-of-range input (the passed deadline among it, as in the scenario of section 8)
  \<open>ValidationError\<close>, and whatever the \<^verbatim>\<open>catch\<close> branch answers \<open>InternalError\<close>.
\<close>

datatype error_kind =
  ValidationError | Unauthenticated | Forbidden | NotFound | Conflict | UploadFailed | InternalError

fun kind :: "error \<Rightarrow> error_kind" where
  "kind AccessDenied = Forbidden"
| "kind UploadRejected = ValidationError"
| "kind OnlyVideoFiles = ValidationError"
| "kind ValidationErrors = ValidationError"
| "kind CourseNotFound = NotFound"
| "kind AssignmentNotFound = NotFound"
| "kind SubmissionNotFound = NotFound"
| "kind NotAuthorizedCreate = Forbidden"
| "kind NotAuthorizedView = Forbidden"
| "kind NotEnrolled = Forbidden"
| "kind AlreadySubmitted = Conflict"
| "kind DeadlinePassed = ValidationError"
| "kind NotAuthorizedViewSubmissions = Forbidden"
| "kind NotAuthorizedGrade = Forbidden"
| "kind NotAuthorizedUpdate = Forbidden"
| "kind NotAuthorizedDelete = Forbidden"
| "kind VideoRequired = ValidationError"
| "kind NotAuthorizedAddLecture = Forbidden"
| "kind ServerError = InternalError"

section \<open>Middleware and validators\<close>

text \<open>
  The model of a route starts where \<^verbatim>\<open>auth\<close> has resolved the actor of the request.

  Modelled from the spec: \<^verbatim>\<open>middleware/auth.js\<close> is not among the sources. Section 9
  describes \<^verbatim>\<open>authorize\<close> as route-level role gating and section 4.3 has every failed
  gate answer Forbidden: a request whose role is not listed never reaches the handler.
\<close>

definition authorize :: "role list \<Rightarrow> actor \<Rightarrow> bool" where
  "authorize roles u \<longleftrightarrow> user_role u \<in> set roles"

text \<open>
  Modelled from the spec: \<^verbatim>\<open>middleware/validation.js\<close> is not among the sources. Its
  \<^verbatim>\<open>handleValidationErrors\<close> stands in the create and upload routes where the other
  routes test \<^verbatim>\<open>validationResult(req)\<close> themselves; by section 7 a request that fails
  a validator is rejected as a validation error before any mutation, so the model lets
  it answer as those tests do.

  The express-validator chains of the routes, as validator.js defines them on the code
  units of a string. \<^verbatim>\<open>trim()\<close> strips from both ends the characters that the regular
  expression class \<^verbatim>\<open>\s\<close> matches: tab, line feed, vertical tab, form feed, carriage
  return, space, no-break space, U+1680, U+2000 to U+200A, the line and paragraph
  separators, U+202F, U+205F, U+3000 and the byte order mark. \<^verbatim>\<open>notEmpty()\<close> asks for
  at least one code unit. \<^verbatim>\<open>isLength({min})\<close> counts the code units, a surrogate pair
  and a variation selector (U+FE0E, U+FE0F) not adding to the count. \<^verbatim>\<open>isNumeric()\<close>
  accepts an optional sign, optional digits with a point, and digits.
  \<^verbatim>\<open>isMongoId()\<close> accepts a string of length 24 that \<^verbatim>\<open>isHexadecimal()\<close> accepts:
  hexadecimal digits, at least one, after an optional prefix \<^verbatim>\<open>0x\<close> or \<^verbatim>\<open>0h\<close> in
  either case. An absent field validates as the empty string.
\<close>

definition is_space :: "code_unit \<Rightarrow> bool" where
  "is_space c \<longleftrightarrow> c \<in> set [0x0009, 0x000A, 0x000B, 0x000C, 0x000D, 0x0020, 0x00A0, 0x1680,
      0x2000, 0x2001, 0x2002, 0x2003, 0x2004, 0x2005, 0x2006, 0x2007, 0x2008, 0x2009, 0x200A,
      0x2028, 0x2029, 0x202F, 0x205F, 0x3000, 0xFEFF]"

definition trim :: "js_string \<Rightarrow> js_string" where
  "trim s = rev (dropWhile is_space (rev (dropWhile is_space s)))"

definition notEmpty :: "js_string \<Rightarrow> bool" where
  "notEmpty s \<longleftrightarrow> s \<noteq> []"

definition is_high_surrogate :: "code_unit \<Rightarrow> bool" where
  "is_high_surrogate c \<longleftrightarrow> 0xD800 \<le> c \<and> c \<le> 0xDBFF"

definition is_low_surrogate :: "code_unit \<Rightarrow> bool" where
  "is_low_surrogate c \<longleftrightarrow> 0xDC00 \<le> c \<and> c \<le> 0xDFFF"

fun surrogatePairs :: "js_string \<Rightarrow> nat" where
  "surrogatePairs (a # b # cs) =
     (if is_high_surrogate a \<and> is_low_surrogate b then Suc (surrogatePairs cs)
      else surrogatePairs (b # cs))"
| "surrogatePairs cs = 0"

definition presentationSequences :: "js_string \<Rightarrow> nat" where
  "presentationSequences s = length (filter (\<lambda>c. c = 0xFE0F \<or> c = 0xFE0E) s)"

definition isLength :: "nat \<Rightarrow> js_string \<Rightarrow> bool" where
  "isLength n s \<longleftrightarrow> n \<le> length s - presentationSequences s - surrogatePairs s"

definition is_digit :: "code_unit \<Rightarrow> bool" where
  "is_digit c \<longleftrightarrow> c \<in> set (str ''0123456789'')"

definition is_hex :: "code_unit \<Rightarrow> bool" where
  "is_hex c \<longleftrightarrow> c \<in> set (str ''0123456789abcdefABCDEF'')"

definition isNumeric :: "js_string \<Rightarrow> bool" where
  "isNumeric s =
     (let t = (case s of [] \<Rightarrow> [] | c # r \<Rightarrow> if [c] = str ''+'' \<or> [c] = str ''-'' then r else s);
          whole = takeWhile is_digit t;
          rest = dropWhile is_digit t
      in case rest of
           [] \<Rightarrow> whole \<noteq> []
         | d # frac \<Rightarrow> [d] = str ''.'' \<and> frac \<noteq> [] \<and> list_all is_digit frac)"

definition isHexadecimal :: "js_string \<Rightarrow> bool" where
  "isHexadecimal s =
     (let digits = (if take 2 s \<in> set [str ''0x'', str ''0X'', str ''0h'', str ''0H'']
                    then drop 2 s else s)
      in digits \<noteq> [] \<and> list_all is_hex digits)"

definition isMongoId :: "js_string \<Rightarrow> bool" where
  "isMongoId s \<longleftrightarrow> isHexadecimal s \<and> length s = 24"

text \<open>
  multer. \<^verbatim>\<open>upload.array('files', 5)\<close> with the 10MB \<^verbatim>\<open>fileSize\<close> limit of the
  assignment routes passes the request on only when it carries at most five files, none
  larger than the limit. \<^verbatim>\<open>upload.single('video')\<close> of the lecture routes has a 100MB
  limit and the \<^verbatim>\<open>fileFilter\<close> of lines 26 to 32, which accepts a file exactly when
  its mimetype starts with \<^verbatim>\<open>video/\<close>.
\<close>

definition assignment_fileSize :: nat where
  "assignment_fileSize = 10 * 1024 * 1024"

definition lecture_fileSize :: nat where
  "lecture_fileSize = 100 * 1024 * 1024"

definition upload_array :: "nat \<Rightarrow> upload_file list \<Rightarrow> bool" where
  "upload_array maxCount fs \<longleftrightarrow> length fs \<le> maxCount \<and> list_all (\<lambda>f. f_size f \<le> assignment_fileSize) fs"

definition startsWith :: "js_string \<Rightarrow> js_string \<Rightarrow> bool" where
  "startsWith s p \<longleftrightarrow> take (length p) s = p"

definition fileFilter :: "upload_file \<Rightarrow> bool" where
  "fileFilter f \<longleftrightarrow> startsWith (mimetype f) (str ''video/'')"

section \<open>Store operations\<close>

text \<open>
  The Mongoose calls of the routes on a collection held as a list. Store operations are
  taken to succeed; what the handlers' own code can raise (reading a field of a
  reference that \<^verbatim>\<open>populate\<close> left \<^verbatim>\<open>null\<close>, a rejected upload promise) is modelled
  where it happens.
\<close>

definition findCourse :: "db \<Rightarrow> oid \<Rightarrow> course_doc option" where
  "findCourse d i = find (\<lambda>c. c_id c = i) (Course d)"

definition findAssignment :: "db \<Rightarrow> oid \<Rightarrow> assignment option" where
  "findAssignment d i = find (\<lambda>a. a_id a = i) (Assignment d)"

text \<open>\<^verbatim>\<open>doc.save()\<close> of a document read from the collection: the stored copy is replaced.\<close>

definition saveAssignment :: "assignment \<Rightarrow> db \<Rightarrow> db" where
  "saveAssignment a d = d\<lparr>Assignment := map (\<lambda>b. if a_id b = a_id a then a else b) (Assignment d)\<rparr>"

definition saveCourse :: "course_doc \<Rightarrow> db \<Rightarrow> db" where
  "saveCourse c d = d\<lparr>Course := map (\<lambda>b. if c_id b = c_id c then c else b) (Course d)\<rparr>"

definition findLecture :: "db \<Rightarrow> oid \<Rightarrow> lecture option" where
  "findLecture d i = find (\<lambda>l. l_id l = i) (Lecture d)"

text \<open>
  \<^verbatim>\<open>save()\<close> of a new document inserts it. The store keeps \<^verbatim>\<open>_id\<close> unique: an
  insert under an id that is taken raises, which the handlers answer from their
  \<^verbatim>\<open>catch\<close> branch.
\<close>

definition insertAssignment :: "assignment \<Rightarrow> db \<Rightarrow> db option" where
  "insertAssignment a d =
     (if findAssignment d (a_id a) = None then Some (d\<lparr>Assignment := Assignment d @ [a]\<rparr>) else None)"

definition insertLecture :: "lecture \<Rightarrow> db \<Rightarrow> db option" where
  "insertLecture l d =
     (if findLecture d (l_id l) = None then Some (d\<lparr>Lecture := Lecture d @ [l]\<rparr>) else None)"

text \<open>\<^verbatim>\<open>Course.findByIdAndUpdate(id, {$pull: {assignments: aid}})\<close> removes every occurrence.\<close>

definition pullAssignment :: "oid \<Rightarrow> oid \<Rightarrow> db \<Rightarrow> db" where
  "pullAssignment cid aid d =
     d\<lparr>Course := map (\<lambda>c. if c_id c = cid then c\<lparr>assignments := filter (\<lambda>i. i \<noteq> aid) (assignments c)\<rparr> else c)
                       (Course d)\<rparr>"

definition findByIdAndDelete :: "oid \<Rightarrow> db \<Rightarrow> db" where
  "findByIdAndDelete aid d = d\<lparr>Assignment := filter (\<lambda>a. a_id a \<noteq> aid) (Assignment d)\<rparr>"

section \<open>Submitting an assignment\<close>

text \<open>
  The request's files come paired with what the Blob Store answers to the upload of
  each: \<open>Some r\<close> when the callback receives the result \<open>r\<close>, \<open>None\<close> when it receives an
  error. The loop of lines 149 to 173 pushes an attachment for each upload that resolves
  and only logs the ones that reject.
\<close>

fun upload_files :: "(upload_file \<times> upload_result option) list \<Rightarrow> attachment list" where
  "upload_files [] = []"
| "upload_files ((f, None) # fs) = upload_files fs"
| "upload_files ((f, Some r) # fs) =
     \<lparr>att_name = originalname f, att_url = secure_url r, att_type = mimetype f\<rparr> # upload_files fs"

fun stored_files :: "(upload_file \<times> upload_result option) list \<Rightarrow> upload_result list" where
  "stored_files [] = []"
| "stored_files ((f, None) # fs) = stored_files fs"
| "stored_files ((f, Some r) # fs) = r # stored_files fs"

text \<open>
  \<^verbatim>\<open>POST /api/assignments/:id/submit\<close>. \<open>now_guard\<close> is the clock read by the deadline
  check of line 140, \<open>now_persist\<close> the clock read by line 177 after the uploads. The
  result is the response and the state the request leaves behind.
\<close>

definition submitAssignment ::
  "db \<Rightarrow> actor \<Rightarrow> oid \<Rightarrow> js_string \<Rightarrow> (upload_file \<times> upload_result option) list \<Rightarrow> int \<Rightarrow> int
     \<Rightarrow> (error + submission) \<times> db" where
  "submitAssignment d u aid body_content files now_guard now_persist =
     (if \<not> authorize [Student] u then (Inl AccessDenied, d)
      else if \<not> upload_array 5 (map fst files) then (Inl UploadRejected, d)
      else if \<not> notEmpty (trim body_content) then (Inl ValidationErrors, d)
      else case findAssignment d aid of
        None \<Rightarrow> (Inl AssignmentNotFound, d)
      | Some a \<Rightarrow>
         (case findCourse d (course a) of
            None \<Rightarrow> (Inl ServerError, d)
          | Some c \<Rightarrow>
             (if user_id u \<notin> set (students c) then (Inl NotEnrolled, d)
              else (case find (\<lambda>sub. student sub = user_id u) (submissions a) of
                 Some existing \<Rightarrow> (Inl AlreadySubmitted, d)
               | None \<Rightarrow>
                  (if now_guard > dueDate a then (Inl DeadlinePassed, d)
                   else
                     let atts = upload_files files;
                         d1 = d\<lparr>cloudinary := cloudinary d @ stored_files files\<rparr>;
                         isLate = now_persist > dueDate a;
                         sub = \<lparr>student = user_id u, content = trim body_content,
                                attachments = atts,
                                status = (if isLate then Late else Submitted),
                                marks = None, feedback = None\<rparr>;
                         a' = a\<lparr>submissions := submissions a @ [sub]\<rparr>
                     in (Inr sub, saveAssignment a' d1))))))"


section \<open>Creating and listing assignments\<close>

text \<open>
  The body of \<^verbatim>\<open>POST /api/assignments\<close>. \<open>cr_dueDate\<close> is the instant the date text
  denotes, \<open>None\<close> when the text is not ISO 8601; \<open>cr_maxMarks\<close> is optional.
\<close>

record create_body =
  cr_title :: js_string
  cr_description :: js_string
  cr_course :: js_string
  cr_dueDate :: "int option"
  cr_maxMarks :: "js_string option"

definition create_valid :: "create_body \<Rightarrow> bool" where
  "create_valid b \<longleftrightarrow>
     isLength 3 (trim (cr_title b)) \<and> isLength 10 (trim (cr_description b))
     \<and> isMongoId (cr_course b) \<and> cr_dueDate b \<noteq> None
     \<and> (case cr_maxMarks b of None \<Rightarrow> True | Some m \<Rightarrow> isNumeric m)"

text \<open>
  \<^verbatim>\<open>POST /api/assignments\<close>. \<open>new_id\<close> is the id the driver generates for the new
  document and \<open>now\<close> the creation time the store stamps on it, the \<^verbatim>\<open>createdAt\<close> that
  the listing sorts by.
\<close>

definition createAssignment ::
  "db \<Rightarrow> actor \<Rightarrow> create_body \<Rightarrow> oid \<Rightarrow> int \<Rightarrow> (error + assignment) \<times> db" where
  "createAssignment d u b new_id now =
     (if \<not> authorize [Instructor] u then (Inl AccessDenied, d)
      else if \<not> create_valid b then (Inl ValidationErrors, d)
      else case cr_dueDate b of
        None \<Rightarrow> (Inl ValidationErrors, d)
      | Some due \<Rightarrow>
         (case findCourse d (cr_course b) of
            None \<Rightarrow> (Inl CourseNotFound, d)
          | Some courseDoc \<Rightarrow>
             (if c_instructor courseDoc \<noteq> user_id u then (Inl NotAuthorizedCreate, d)
              else
                let a = \<lparr>a_id = new_id, title = trim (cr_title b),
                         description = trim (cr_description b), course = cr_course b,
                         instructor = user_id u, dueDate = due,
                         maxMarks = (case cr_maxMarks b of None \<Rightarrow> (str ''100'') | Some m \<Rightarrow> m),
                         submissions = [], createdAt = now\<rparr>
                in (case insertAssignment a d of
                      None \<Rightarrow> (Inl ServerError, d)
                    | Some d1 \<Rightarrow>
                       (Inr a, saveCourse (courseDoc\<lparr>assignments := assignments courseDoc @ [new_id]\<rparr>) d1)))))"

text \<open>
  \<^verbatim>\<open>GET /api/assignments/:courseId\<close>: the documents whose \<open>course\<close> is the id asked
  for, sorted by \<^verbatim>\<open>{createdAt: -1}\<close>. Populating the instructor's name changes neither
  which documents are returned nor their order.
\<close>

definition listAssignments :: "db \<Rightarrow> actor \<Rightarrow> oid \<Rightarrow> (error + assignment list) \<times> db" where
  "listAssignments d u courseId =
     (case findCourse d courseId of
        None \<Rightarrow> (Inl CourseNotFound, d)
      | Some c \<Rightarrow>
         (let isEnrolled = user_id u \<in> set (students c);
              isInstructor = (c_instructor c = user_id u)
          in if \<not> isEnrolled \<and> \<not> isInstructor then (Inl NotAuthorizedView, d)
             else (Inr (sort_key (\<lambda>a. - createdAt a) (filter (\<lambda>a. course a = courseId) (Assignment d))), d)))"

section \<open>Listing and grading submissions\<close>

text \<open>
  \<^verbatim>\<open>GET /api/assignments/:id/submissions\<close>. The second read of line 215 populates
  the students' names; the submissions it returns are those embedded in the assignment.
\<close>

definition listSubmissions :: "db \<Rightarrow> actor \<Rightarrow> oid \<Rightarrow> (error + submission list) \<times> db" where
  "listSubmissions d u aid =
     (if \<not> authorize [Instructor] u then (Inl AccessDenied, d)
      else case findAssignment d aid of
        None \<Rightarrow> (Inl AssignmentNotFound, d)
      | Some a \<Rightarrow>
         (if instructor a \<noteq> user_id u then (Inl NotAuthorizedViewSubmissions, d)
          else (Inr (submissions a), d)))"

text \<open>The body of \<^verbatim>\<open>PUT /api/assignments/:id/grade\<close>; \<open>g_feedback\<close> is optional.\<close>

record grade_body =
  g_studentId :: js_string
  g_marks :: js_string
  g_feedback :: "js_string option"

definition grade_valid :: "grade_body \<Rightarrow> bool" where
  "grade_valid b \<longleftrightarrow> isMongoId (g_studentId b) \<and> isNumeric (g_marks b)"

text \<open>
  The \<open>feedback\<close> the handler destructures in line 240: the sanitizer of line 232 has
  trimmed a feedback that is present, and an absent one defaults to the empty string.
\<close>

definition feedback_of :: "grade_body \<Rightarrow> js_string" where
  "feedback_of b = (case g_feedback b of None \<Rightarrow> [] | Some f \<Rightarrow> trim f)"

text \<open>
  Lines 252 to 262: \<^verbatim>\<open>find\<close> yields the first submission of the student, and the
  three assignments change that element of the list in place.
\<close>

fun grade_first :: "oid \<Rightarrow> js_string \<Rightarrow> js_string \<Rightarrow> submission list \<Rightarrow> submission list" where
  "grade_first sid m fb [] = []"
| "grade_first sid m fb (s # ss) =
     (if student s = sid then s\<lparr>marks := Some m, feedback := Some fb, status := Graded\<rparr> # ss
      else s # grade_first sid m fb ss)"

definition gradeSubmission :: "db \<Rightarrow> actor \<Rightarrow> oid \<Rightarrow> grade_body \<Rightarrow> (error + submission) \<times> db" where
  "gradeSubmission d u aid b =
     (if \<not> authorize [Instructor] u then (Inl AccessDenied, d)
      else if \<not> grade_valid b then (Inl ValidationErrors, d)
      else case findAssignment d aid of
        None \<Rightarrow> (Inl AssignmentNotFound, d)
      | Some a \<Rightarrow>
         (if instructor a \<noteq> user_id u then (Inl NotAuthorizedGrade, d)
          else (case find (\<lambda>sub. student sub = g_studentId b) (submissions a) of
             None \<Rightarrow> (Inl SubmissionNotFound, d)
           | Some sub \<Rightarrow>
              (Inr (sub\<lparr>marks := Some (g_marks b), feedback := Some (feedback_of b), status := Graded\<rparr>),
               saveAssignment
                 (a\<lparr>submissions := grade_first (g_studentId b) (g_marks b) (feedback_of b) (submissions a)\<rparr>)
                 d))))"

section \<open>Updating and deleting assignments\<close>

text \<open>
  The body of \<^verbatim>\<open>PUT /api/assignments/:id\<close>, which line 301 hands to
  \<^verbatim>\<open>findByIdAndUpdate\<close> as it is: every path of the assignment that the body names is
  set. The schema (\<^verbatim>\<open>models/Assignment.js\<close>) is not among the sources; the paths are the
  ones the routes write when they create an assignment and push a submission, each an
  ordinary path that an update may set. The validators of the route look at the title
  and the description only, and their \<^verbatim>\<open>trim()\<close> rewrites those two in the body.
\<close>

record update_body =
  u_title :: "js_string option"
  u_description :: "js_string option"
  u_course :: "oid option"
  u_instructor :: "oid option"
  u_dueDate :: "int option"
  u_maxMarks :: "js_string option"
  u_submissions :: "submission list option"

definition update_valid :: "update_body \<Rightarrow> bool" where
  "update_valid b \<longleftrightarrow>
     (case u_title b of None \<Rightarrow> True | Some t \<Rightarrow> isLength 3 (trim t))
     \<and> (case u_description b of None \<Rightarrow> True | Some t \<Rightarrow> isLength 10 (trim t))"

definition apply_update :: "update_body \<Rightarrow> assignment \<Rightarrow> assignment" where
  "apply_update b a =
     a\<lparr>title := (case u_title b of None \<Rightarrow> title a | Some t \<Rightarrow> trim t),
       description := (case u_description b of None \<Rightarrow> description a | Some t \<Rightarrow> trim t),
       course := (case u_course b of None \<Rightarrow> course a | Some c \<Rightarrow> c),
       instructor := (case u_instructor b of None \<Rightarrow> instructor a | Some i \<Rightarrow> i),
       dueDate := (case u_dueDate b of None \<Rightarrow> dueDate a | Some t \<Rightarrow> t),
       maxMarks := (case u_maxMarks b of None \<Rightarrow> maxMarks a | Some m \<Rightarrow> m),
       submissions := (case u_submissions b of None \<Rightarrow> submissions a | Some ss \<Rightarrow> ss)\<rparr>"

definition updateAssignment :: "db \<Rightarrow> actor \<Rightarrow> oid \<Rightarrow> update_body \<Rightarrow> (error + assignment) \<times> db" where
  "updateAssignment d u aid b =
     (if \<not> authorize [Instructor] u then (Inl AccessDenied, d)
      else if \<not> update_valid b then (Inl ValidationErrors, d)
      else case findAssignment d aid of
        None \<Rightarrow> (Inl AssignmentNotFound, d)
      | Some a \<Rightarrow>
         (if instructor a \<noteq> user_id u then (Inl NotAuthorizedUpdate, d)
          else (Inr (apply_update b a), saveAssignment (apply_update b a) d)))"

text \<open>
  \<^verbatim>\<open>DELETE /api/assignments/:id\<close>. The assignment is read with its course populated;
  when the course is gone, \<^verbatim>\<open>assignment.course._id\<close> in line 331 raises and nothing is
  deleted.
\<close>

definition deleteAssignment :: "db \<Rightarrow> actor \<Rightarrow> oid \<Rightarrow> (error + unit) \<times> db" where
  "deleteAssignment d u aid =
     (if \<not> authorize [Instructor] u then (Inl AccessDenied, d)
      else case findAssignment d aid of
        None \<Rightarrow> (Inl AssignmentNotFound, d)
      | Some a \<Rightarrow>
         (if instructor a \<noteq> user_id u then (Inl NotAuthorizedDelete, d)
          else (case findCourse d (course a) of
             None \<Rightarrow> (Inl ServerError, d)
           | Some c \<Rightarrow> (Inr (), findByIdAndDelete aid (pullAssignment (c_id c) (a_id a) d)))))"

section \<open>Uploading a lecture\<close>

text \<open>
  The request of \<^verbatim>\<open>POST /api/lectures\<close>: the multipart fields, and the file of the
  \<^verbatim>\<open>video\<close> field, if any, paired with what the Blob Store answers to its upload.
\<close>

record lecture_body =
  lb_title :: js_string
  lb_description :: "js_string option"
  lb_course :: js_string
  lb_order :: "js_string option"
  lb_isPreview :: "js_string option"
  lb_notes :: "js_string option"

definition lecture_valid :: "lecture_body \<Rightarrow> bool" where
  "lecture_valid b \<longleftrightarrow> isLength 3 (trim (lb_title b)) \<and> isMongoId (lb_course b)"

text \<open>
  multer runs before the validators and the handler: a file that the filter refuses or
  that exceeds the size limit ends the request there. The handler then requires the
  file (line 44), looks the course up, checks its instructor, uploads, and only after
  the upload has resolved creates the lecture and pushes its id to the course. A
  rejected upload promise raises out of line 61 into the \<^verbatim>\<open>catch\<close> branch.
\<close>

definition uploadLecture ::
  "db \<Rightarrow> actor \<Rightarrow> lecture_body \<Rightarrow> (upload_file \<times> upload_result option) option \<Rightarrow> oid
     \<Rightarrow> (error + lecture) \<times> db" where
  "uploadLecture d u b video new_id =
     (if \<not> authorize [Instructor] u then (Inl AccessDenied, d)
      else if (case video of None \<Rightarrow> False | Some (f, r) \<Rightarrow> \<not> fileFilter f) then (Inl OnlyVideoFiles, d)
      else if (case video of None \<Rightarrow> False | Some (f, r) \<Rightarrow> f_size f > lecture_fileSize) then (Inl UploadRejected, d)
      else if \<not> lecture_valid b then (Inl ValidationErrors, d)
      else case video of
        None \<Rightarrow> (Inl VideoRequired, d)
      | Some (f, outcome) \<Rightarrow>
         (case findCourse d (lb_course b) of
            None \<Rightarrow> (Inl CourseNotFound, d)
          | Some courseDoc \<Rightarrow>
             (if c_instructor courseDoc \<noteq> user_id u then (Inl NotAuthorizedAddLecture, d)
              else (case outcome of
                 None \<Rightarrow> (Inl ServerError, d)
               | Some result \<Rightarrow>
                  (let d1 = d\<lparr>cloudinary := cloudinary d @ [result]\<rparr>;
                       l = \<lparr>l_id = new_id, l_title = trim (lb_title b),
                            l_description = lb_description b, l_course = lb_course b,
                            videoUrl = secure_url result, videoId = public_id result,
                            duration = up_duration result,
                            l_order = (case lb_order b of None \<Rightarrow> (str ''0'')
                                       | Some s \<Rightarrow> if s = [] then (str ''0'') else s),
                            isPreview = (lb_isPreview b = Some (str ''true'')),
                            l_notes = lb_notes b\<rparr>
                   in (case insertLecture l d1 of
                         None \<Rightarrow> (Inl ServerError, d1)
                       | Some d2 \<Rightarrow>
                          (Inr l, saveCourse (courseDoc\<lparr>lectures := lectures courseDoc @ [new_id]\<rparr>) d2)))))))"

section \<open>Requests in sequence\<close>

text \<open>
  The requests of the modelled routes (the assignment routes and the lecture upload),
  and the state each leaves behind, for properties that speak of every later operation.
\<close>

datatype request =
    CreateAssignment actor create_body oid int
  | ListAssignments actor oid
  | SubmitAssignment actor oid js_string "(upload_file \<times> upload_result option) list" int int
  | ListSubmissions actor oid
  | GradeSubmission actor oid grade_body
  | UpdateAssignment actor oid update_body
  | DeleteAssignment actor oid
  | UploadLecture actor lecture_body "(upload_file \<times> upload_result option) option" oid

fun handle :: "request \<Rightarrow> db \<Rightarrow> db" where
  "handle (CreateAssignment u b new_id now) d = snd (createAssignment d u b new_id now)"
| "handle (ListAssignments u cid) d = snd (listAssignments d u cid)"
| "handle (SubmitAssignment u aid c fs g p) d = snd (submitAssignment d u aid c fs g p)"
| "handle (ListSubmissions u aid) d = snd (listSubmissions d u aid)"
| "handle (GradeSubmission u aid b) d = snd (gradeSubmission d u aid b)"
| "handle (UpdateAssignment u aid b) d = snd (updateAssignment d u aid b)"
| "handle (DeleteAssignment u aid) d = snd (deleteAssignment d u aid)"
| "handle (UploadLecture u b v new_id) d = snd (uploadLecture d u b v new_id)"

definition run :: "request list \<Rightarrow> db \<Rightarrow> db" where
  "run rs d = fold handle rs d"

text \<open>The requests that insert an assignment under the id \<open>i\<close>.\<close>

fun creates :: "oid \<Rightarrow> request \<Rightarrow> bool" where
  "creates i (CreateAssignment u b new_id now) \<longleftrightarrow> new_id = i"
| "creates i _ \<longleftrightarrow> False"

text \<open>The update requests whose body names the \<open>instructor\<close> path.\<close>

fun sets_instructor :: "request \<Rightarrow> bool" where
  "sets_instructor (UpdateAssignment u aid b) \<longleftrightarrow> u_instructor b \<noteq> None"
| "sets_instructor _ \<longleftrightarrow> False"

section \<open>Referential consistency\<close>

text \<open>The ids of the assignments in the store, and whether a course lists an assignment.\<close>

definition assignment_ids :: "db \<Rightarrow> oid set" where
  "assignment_ids d = set (map a_id (Assignment d))"

definition referenced :: "oid \<Rightarrow> oid \<Rightarrow> db \<Rightarrow> bool" where
  "referenced cid aid d \<longleftrightarrow> (\<exists>c\<in>set (Course d). c_id c = cid \<and> aid \<in> set (assignments c))"

section \<open>A submission on record\<close>

text \<open>
  What the checks of lines 126 to 137 read: whether the student is among the students of
  the course the assignment names, and whether the assignment embeds a submission of
  the student.
\<close>

definition enrolled_in :: "oid \<Rightarrow> oid \<Rightarrow> db \<Rightarrow> bool" where
  "enrolled_in uid cid d \<longleftrightarrow>
     (case findCourse d cid of None \<Rightarrow> False | Some c \<Rightarrow> uid \<in> set (students c))"

definition has_submitted :: "oid \<Rightarrow> oid \<Rightarrow> db \<Rightarrow> bool" where
  "has_submitted uid aid d \<longleftrightarrow>
     (case findAssignment d aid of
        None \<Rightarrow> False
      | Some a \<Rightarrow> uid \<in> student ` set (submissions a) \<and> enrolled_in uid (course a) d)"

text \<open>
  The requests that can take a submission off an assignment or move the assignment to
  another course: deleting it, and updating it with a body that names the
  \<open>submissions\<close> or the \<open>course\<close> path.
\<close>

fun unsubmits :: "oid \<Rightarrow> request \<Rightarrow> bool" where
  "unsubmits i (DeleteAssignment u j) \<longleftrightarrow> j = i"
| "unsubmits i (UpdateAssignment u j b) \<longleftrightarrow> j = i \<and> (u_submissions b \<noteq> None \<or> u_course b \<noteq> None)"
| "unsubmits i _ \<longleftrightarrow> False"

section \<open>A running example\<close>

text \<open>
  The scenario of section 8: instructor I owns course C, assignment A on C is due one
  hour after time 0, students S and S2 are enrolled, a second instructor J owns nothing.
\<close>

definition I_id :: oid where "I_id = (str ''64b0000000000000000000a1'')"
definition J_id :: oid where "J_id = (str ''64b0000000000000000000a2'')"
definition S_id :: oid where "S_id = (str ''64b0000000000000000000b1'')"
definition S2_id :: oid where "S2_id = (str ''64b0000000000000000000b2'')"
definition C_id :: oid where "C_id = (str ''64b0000000000000000000c1'')"
definition A_id :: oid where "A_id = (str ''64b0000000000000000000d1'')"

definition actor_I :: actor where "actor_I = \<lparr>user_id = I_id, user_role = Instructor\<rparr>"
definition actor_J :: actor where "actor_J = \<lparr>user_id = J_id, user_role = Instructor\<rparr>"
definition actor_S :: actor where "actor_S = \<lparr>user_id = S_id, user_role = Student\<rparr>"
definition actor_S2 :: actor where "actor_S2 = \<lparr>user_id = S2_id, user_role = Student\<rparr>"

definition course_C :: course_doc where
  "course_C = \<lparr>c_id = C_id, c_instructor = I_id, students = [S_id, S2_id], lectures = [],
                assignments = [A_id], isPublished = True\<rparr>"

definition assignment_A :: assignment where
  "assignment_A = \<lparr>a_id = A_id, title = (str ''Essay''), description = (str ''Write an essay''),
                    course = C_id, instructor = I_id, dueDate = 3600000, maxMarks = (str ''100''),
                    submissions = [], createdAt = 0\<rparr>"

definition db0 :: db where
  "db0 = \<lparr>Course = [course_C], Assignment = [assignment_A], Lecture = [], cloudinary = []\<rparr>"

text \<open>The state after S has submitted in time, and after S2 has too, with a late status.\<close>

definition sub_S :: submission where
  "sub_S = \<lparr>student = S_id, content = (str ''answer''), attachments = [], status = Submitted,
            marks = None, feedback = None\<rparr>"

definition sub_S2 :: submission where
  "sub_S2 = \<lparr>student = S2_id, content = (str ''second answer''), attachments = [], status = Late,
             marks = None, feedback = None\<rparr>"

definition db1 :: db where
  "db1 = db0\<lparr>Assignment := [assignment_A\<lparr>submissions := [sub_S]\<rparr>]\<rparr>"

definition db2 :: db where
  "db2 = db0\<lparr>Assignment := [assignment_A\<lparr>submissions := [sub_S, sub_S2]\<rparr>]\<rparr>"

text \<open>Two grade requests for S, a malformed one, and one for S2.\<close>

definition grade_85 :: grade_body where
  "grade_85 = \<lparr>g_studentId = S_id, g_marks = (str ''85''), g_feedback = Some (str ''good'')\<rparr>"

definition grade_90 :: grade_body where
  "grade_90 = \<lparr>g_studentId = S_id, g_marks = (str ''90.5''), g_feedback = None\<rparr>"

definition grade_abc :: grade_body where
  "grade_abc = \<lparr>g_studentId = S_id, g_marks = (str ''abc''), g_feedback = None\<rparr>"

definition grade_S2 :: grade_body where
  "grade_S2 = \<lparr>g_studentId = S2_id, g_marks = (str ''70''), g_feedback = Some (str ''late'')\<rparr>"

text \<open>Three files of a submission, the second of which the Blob Store fails to take.\<close>

definition file_pdf :: upload_file where
  "file_pdf = \<lparr>originalname = (str ''essay.pdf''), mimetype = (str ''application/pdf''), f_size = 2048\<rparr>"

definition file_png :: upload_file where
  "file_png = \<lparr>originalname = (str ''figure.png''), mimetype = (str ''image/png''), f_size = 4096\<rparr>"

definition file_txt :: upload_file where
  "file_txt = \<lparr>originalname = (str ''notes.txt''), mimetype = (str ''text/plain''), f_size = 128\<rparr>"

definition stored_pdf :: upload_result where
  "stored_pdf = \<lparr>secure_url = (str ''https://blob/essay''), public_id = (str ''essay''), up_duration = None\<rparr>"

definition stored_txt :: upload_result where
  "stored_txt = \<lparr>secure_url = (str ''https://blob/notes''), public_id = (str ''notes''), up_duration = None\<rparr>"

definition three_files :: "(upload_file \<times> upload_result option) list" where
  "three_files = [(file_pdf, Some stored_pdf), (file_png, None), (file_txt, Some stored_txt)]"

text \<open>
  A second assignment B of course C, created ten seconds after A, and an assignment of
  another course; a request to create B; update bodies that rename an assignment and
  that name the \<open>instructor\<close> path.
\<close>

definition B_id :: oid where "B_id = (str ''64b0000000000000000000d2'')"
definition X_id :: oid where "X_id = (str ''64b0000000000000000000d3'')"
definition C2_id :: oid where "C2_id = (str ''64b0000000000000000000c2'')"

definition assignment_B :: assignment where
  "assignment_B = \<lparr>a_id = B_id, title = (str ''Quiz''), description = (str ''Answer the quiz''),
                    course = C_id, instructor = I_id, dueDate = 7200000, maxMarks = (str ''100''),
                    submissions = [], createdAt = 10000\<rparr>"

definition assignment_X :: assignment where
  "assignment_X = \<lparr>a_id = X_id, title = (str ''Other''), description = (str ''Of another course''),
                    course = C2_id, instructor = J_id, dueDate = 7200000, maxMarks = (str ''50''),
                    submissions = [], createdAt = 5000\<rparr>"

definition db3 :: db where
  "db3 = \<lparr>Course = [course_C\<lparr>assignments := [A_id, B_id]\<rparr>],
          Assignment = [assignment_A, assignment_X, assignment_B], Lecture = [], cloudinary = []\<rparr>"

text \<open>The state after A has been deleted from it.\<close>

definition db4 :: db where
  "db4 = \<lparr>Course = [course_C\<lparr>assignments := [B_id]\<rparr>],
          Assignment = [assignment_X, assignment_B], Lecture = [], cloudinary = []\<rparr>"

definition create_B :: create_body where
  "create_B = \<lparr>cr_title = (str ''Quiz''), cr_description = (str ''Answer the quiz''), cr_course = C_id,
                cr_dueDate = Some 7200000, cr_maxMarks = None\<rparr>"

definition no_update :: update_body where
  "no_update = \<lparr>u_title = None, u_description = None, u_course = None, u_instructor = None,
                 u_dueDate = None, u_maxMarks = None, u_submissions = None\<rparr>"

definition rename :: update_body where
  "rename = no_update\<lparr>u_title := Some (str ''Essay 2'')\<rparr>"

definition take_over :: update_body where
  "take_over = no_update\<lparr>u_instructor := Some J_id\<rparr>"

text \<open>A lecture request for course C, and a video file.\<close>

definition lecture_intro :: lecture_body where
  "lecture_intro = \<lparr>lb_title = (str ''Intro''), lb_description = None, lb_course = C_id,
                     lb_order = None, lb_isPreview = None, lb_notes = None\<rparr>"

definition file_mp4 :: upload_file where
  "file_mp4 = \<lparr>originalname = (str ''intro.mp4''), mimetype = (str ''video/mp4''), f_size = 1000000\<rparr>"

definition L_id :: oid where "L_id = (str ''64b0000000000000000000e1'')"

text \<open>
  A grade request whose feedback is padded with white space, one whose student id has
  the prefix that \<^verbatim>\<open>isHexadecimal()\<close> allows, an update that empties the submissions,
  and a content that is a single no-break space.
\<close>

definition grade_padded :: grade_body where
  "grade_padded = \<lparr>g_studentId = S_id, g_marks = str ''90.5'', g_feedback = Some (str ''  well done '')\<rparr>"

definition grade_0x :: grade_body where
  "grade_0x = \<lparr>g_studentId = str ''0x00000000000000000000b1'', g_marks = str ''85'', g_feedback = None\<rparr>"

definition clear_submissions :: update_body where
  "clear_submissions = no_update\<lparr>u_submissions := Some []\<rparr>"

definition nbsp :: js_string where
  "nbsp = [0x00A0]"

lemmas example_defs =
  I_id_def J_id_def S_id_def S2_id_def C_id_def A_id_def actor_I_def actor_J_def actor_S_def
  actor_S2_def course_C_def assignment_A_def db0_def sub_S_def sub_S2_def db1_def db2_def
  grade_85_def grade_90_def grade_abc_def grade_S2_def B_id_def X_id_def C2_id_def
  assignment_B_def assignment_X_def db3_def db4_def create_B_def no_update_def rename_def
  take_over_def grade_padded_def grade_0x_def clear_submissions_def nbsp_def

section \<open>Facts about strings\<close>

lemma of_char_code_unit_eq_iff: "(of_char c :: code_unit) = of_char d \<longleftrightarrow> c = d"
proof
  assume eq: "(of_char c :: code_unit) = of_char d"
  have unat_of_char: "unat (of_char x :: code_unit) = of_char x" for x
  proof -
    have "(of_char x :: nat) mod 256 < 256" by (rule mod_less_divisor) simp
    then have "(of_char x :: nat) < 256" by simp
    then have "(of_char x :: nat) < 2 ^ 16" by (rule less_trans) simp
    moreover have "(of_char x :: code_unit) = of_nat (of_char x)" by (simp add: of_nat_of_char)
    ultimately show ?thesis by (simp add: unat_of_nat)
  qed
  from eq have "unat (of_char c :: code_unit) = unat (of_char d :: code_unit)" by simp
  then have "(of_char c :: nat) = of_char d" by (simp add: unat_of_char)
  then show "c = d" by simp
qed simp

lemma str_eq_iff [simp]: "str a = str b \<longleftrightarrow> a = b"
  unfolding str_def by (simp add: inj_map_eq_map inj_on_def of_char_code_unit_eq_iff)

lemma str_simps [simp]: "str [] = []" "str s = [] \<longleftrightarrow> s = []" "length (str s) = length s"
  by (simp_all add: str_def)

section \<open>Facts about the store operations\<close>

lemma find_Some_pred: "find P xs = Some x \<Longrightarrow> P x \<and> x \<in> set xs"
  by (induction xs) (auto split: if_splits)

lemma findAssignment_id: "findAssignment d i = Some a \<Longrightarrow> a_id a = i"
  unfolding findAssignment_def by (drule find_Some_pred) simp

lemma findCourse_id: "findCourse d i = Some c \<Longrightarrow> c_id c = i"
  unfolding findCourse_def by (drule find_Some_pred) simp

lemma find_map_replace:
  assumes "find (\<lambda>b. key b = i) xs = Some a" and "key a' = i"
  shows "find (\<lambda>b. key b = i) (map (\<lambda>b. if key b = i then a' else b) xs) = Some a'"
  using assms by (induction xs) (auto split: if_splits)

lemma find_map_keep:
  assumes "key a' \<noteq> i"
  shows "find (\<lambda>b. key b = i) (map (\<lambda>b. if key b = key a' then a' else b) xs)
           = find (\<lambda>b. key b = i) xs"
  using assms by (induction xs) auto

lemma findAssignment_save_same:
  assumes "findAssignment d i = Some a" and "a_id a' = i"
  shows "findAssignment (saveAssignment a' d) i = Some a'"
proof -
  have "find (\<lambda>b. a_id b = i) (map (\<lambda>b. if a_id b = i then a' else b) (Assignment d)) = Some a'"
    using assms by (intro find_map_replace [where a = a]) (simp_all add: findAssignment_def)
  then show ?thesis
    using assms(2) by (simp add: findAssignment_def saveAssignment_def)
qed

lemma findAssignment_save_other:
  "a_id a' \<noteq> i \<Longrightarrow> findAssignment (saveAssignment a' d) i = findAssignment d i"
  by (simp add: findAssignment_def saveAssignment_def find_map_keep)

lemma findAssignment_cloudinary [simp]:
  "findAssignment (d\<lparr>cloudinary := b\<rparr>) i = findAssignment d i"
  by (simp add: findAssignment_def)

lemma findCourse_cloudinary [simp]:
  "findCourse (d\<lparr>cloudinary := b\<rparr>) i = findCourse d i"
  by (simp add: findCourse_def)

lemma findCourse_saveAssignment [simp]:
  "findCourse (saveAssignment a d) i = findCourse d i"
  by (simp add: findCourse_def saveAssignment_def)

section \<open>Properties of submitting\<close>

text \<open>
  What a submit request does once it has reached the deadline check of line 140: the
  role gate, multer, the content validator, the lookups, the enrolment check and the
  duplicate check have all let it pass.
\<close>

lemma submit_at_guard:
  assumes "authorize [Student] u" and "upload_array 5 (map fst files)"
    and "notEmpty (trim body_content)"
    and "findAssignment d aid = Some a" and "findCourse d (course a) = Some c"
    and "user_id u \<in> set (students c)"
    and "find (\<lambda>sub. student sub = user_id u) (submissions a) = None"
  shows "submitAssignment d u aid body_content files now_guard now_persist =
     (if now_guard > dueDate a then (Inl DeadlinePassed, d)
      else
        let sub = \<lparr>student = user_id u, content = trim body_content,
                    attachments = upload_files files,
                    status = (if now_persist > dueDate a then Late else Submitted),
                    marks = None, feedback = None\<rparr>
        in (Inr sub, saveAssignment (a\<lparr>submissions := submissions a @ [sub]\<rparr>)
                       (d\<lparr>cloudinary := cloudinary d @ stored_files files\<rparr>)))"
  using assms by (simp add: submitAssignment_def Let_def)

text \<open>
  Claim C1. For a submit request that reaches the deadline check: if the clock read by
  that check is past the due date, the request is rejected (deadline passed) and the
  state, hence the list of submissions, is unchanged; otherwise the request succeeds,
  the assignment's list of submissions is the old one with one submission appended, and
  the status of that submission is late if the clock read just before persisting is past
  the due date and submitted if it is not.
\<close>

theorem submit_deadline_guard_then_status:
  assumes "authorize [Student] u" and "upload_array 5 (map fst files)"
    and "notEmpty (trim body_content)"
    and "findAssignment d aid = Some a" and "findCourse d (course a) = Some c"
    and "user_id u \<in> set (students c)"
    and "find (\<lambda>sub. student sub = user_id u) (submissions a) = None"
  shows "(now_guard > dueDate a \<longrightarrow>
            submitAssignment d u aid body_content files now_guard now_persist = (Inl DeadlinePassed, d))
       \<and> (\<not> now_guard > dueDate a \<longrightarrow>
            (\<exists>sub d'. submitAssignment d u aid body_content files now_guard now_persist = (Inr sub, d')
               \<and> findAssignment d' aid = Some (a\<lparr>submissions := submissions a @ [sub]\<rparr>)
               \<and> student sub = user_id u
               \<and> status sub = (if now_persist > dueDate a then Late else Submitted)))"
proof (intro conjI impI)
  assume "now_guard > dueDate a"
  then show "submitAssignment d u aid body_content files now_guard now_persist = (Inl DeadlinePassed, d)"
    using submit_at_guard [OF assms] by simp
next
  assume before: "\<not> now_guard > dueDate a"
  define sub where "sub = \<lparr>student = user_id u, content = trim body_content,
                    attachments = upload_files files,
                    status = (if now_persist > dueDate a then Late else Submitted),
                    marks = None, feedback = None\<rparr>"
  define d' where "d' = saveAssignment (a\<lparr>submissions := submissions a @ [sub]\<rparr>)
                       (d\<lparr>cloudinary := cloudinary d @ stored_files files\<rparr>)"
  have run: "submitAssignment d u aid body_content files now_guard now_persist = (Inr sub, d')"
    using submit_at_guard [OF assms, of now_guard now_persist] before
    by (simp add: sub_def d'_def Let_def)
  have "a_id a = aid" using assms(4) by (rule findAssignment_id)
  then have stored: "findAssignment d' aid = Some (a\<lparr>submissions := submissions a @ [sub]\<rparr>)"
    unfolding d'_def using assms(4) by (intro findAssignment_save_same) simp_all
  have "student sub = user_id u"
    and "status sub = (if now_persist > dueDate a then Late else Submitted)"
    by (simp_all add: sub_def)
  with run stored
  show "\<exists>sub d'. submitAssignment d u aid body_content files now_guard now_persist = (Inr sub, d')
               \<and> findAssignment d' aid = Some (a\<lparr>submissions := submissions a @ [sub]\<rparr>)
               \<and> student sub = user_id u
               \<and> status sub = (if now_persist > dueDate a then Late else Submitted)"
    by blast
qed

lemma example_lookups:
  "findAssignment db0 A_id = Some assignment_A"
  "findCourse db0 (course assignment_A) = Some course_C"
  by (simp_all add: findAssignment_def findCourse_def example_defs)

lemma answer_valid: "notEmpty (trim (str ''answer''))"
  by (simp add: notEmpty_def trim_def is_space_def str_def)

theorem submit_deadline_guard_then_status_witness:
  "authorize [Student] actor_S \<and> upload_array 5 (map fst []) \<and> notEmpty (trim (str ''answer''))
   \<and> findAssignment db0 A_id = Some assignment_A
   \<and> findCourse db0 (course assignment_A) = Some course_C
   \<and> user_id actor_S \<in> set (students course_C)
   \<and> find (\<lambda>sub. student sub = user_id actor_S) (submissions assignment_A) = None
   \<and> submitAssignment db0 actor_S A_id (str ''answer'') [] 3600001 3600001 = (Inl DeadlinePassed, db0)
   \<and> (\<exists>sub d'. submitAssignment db0 actor_S A_id (str ''answer'') [] 3599000 3601000 = (Inr sub, d')
         \<and> findAssignment d' A_id = Some (assignment_A\<lparr>submissions := [sub]\<rparr>)
         \<and> status sub = Late)
   \<and> (\<exists>sub d'. submitAssignment db0 actor_S A_id (str ''answer'') [] 3599000 3600000 = (Inr sub, d')
         \<and> findAssignment d' A_id = Some (assignment_A\<lparr>submissions := [sub]\<rparr>)
         \<and> status sub = Submitted)"
proof -
  have h1: "authorize [Student] actor_S" by (simp add: authorize_def actor_S_def)
  have h2: "upload_array 5 (map fst [])" by (simp add: upload_array_def)
  have h6: "user_id actor_S \<in> set (students course_C)" by (simp add: example_defs)
  have h7: "find (\<lambda>sub. student sub = user_id actor_S) (submissions assignment_A) = None"
    by (simp add: assignment_A_def)
  note inst = submit_deadline_guard_then_status
    [OF h1 h2 answer_valid example_lookups(1) example_lookups(2) h6 h7]
  have due: "dueDate assignment_A = 3600000" and none: "submissions assignment_A = []"
    by (simp_all add: assignment_A_def)
  from inst [of 3600001 3600001] inst [of 3599000 3601000] inst [of 3599000 3600000]
  show ?thesis
    using h1 h2 h6 h7 answer_valid example_lookups by (simp add: due none) blast
qed

text \<open>A submit request that succeeds has passed every guard, and its effect is the append.\<close>

lemma submit_success_cases:
  assumes ok: "submitAssignment d u aid body_content files now_guard now_persist = (Inr sub, d1)"
  obtains a c where
    "authorize [Student] u" "upload_array 5 (map fst files)" "notEmpty (trim body_content)"
    "findAssignment d aid = Some a" "findCourse d (course a) = Some c"
    "user_id u \<in> set (students c)"
    "find (\<lambda>sub. student sub = user_id u) (submissions a) = None"
    "\<not> now_guard > dueDate a"
    "sub = \<lparr>student = user_id u, content = trim body_content,
                    attachments = upload_files files,
                    status = (if now_persist > dueDate a then Late else Submitted),
                    marks = None, feedback = None\<rparr>"
    "d1 = saveAssignment (a\<lparr>submissions := submissions a @ [sub]\<rparr>)
                       (d\<lparr>cloudinary := cloudinary d @ stored_files files\<rparr>)"
proof -
  have g1: "authorize [Student] u"
    by (rule ccontr) (use ok in \<open>simp add: submitAssignment_def\<close>)
  have g2: "upload_array 5 (map fst files)"
    by (rule ccontr) (use ok g1 in \<open>simp add: submitAssignment_def\<close>)
  have g3: "notEmpty (trim body_content)"
    by (rule ccontr) (use ok g1 g2 in \<open>simp add: submitAssignment_def\<close>)
  obtain a where g4: "findAssignment d aid = Some a"
    by (cases "findAssignment d aid") (use ok g1 g2 g3 in \<open>simp_all add: submitAssignment_def\<close>)
  obtain c where g5: "findCourse d (course a) = Some c"
    by (cases "findCourse d (course a)") (use ok g1 g2 g3 g4 in \<open>simp_all add: submitAssignment_def\<close>)
  have g6: "user_id u \<in> set (students c)"
    by (rule ccontr) (use ok g1 g2 g3 g4 g5 in \<open>simp add: submitAssignment_def\<close>)
  have g7: "find (\<lambda>sub. student sub = user_id u) (submissions a) = None"
    by (cases "find (\<lambda>sub. student sub = user_id u) (submissions a)")
       (use ok g1 g2 g3 g4 g5 g6 in \<open>simp_all add: submitAssignment_def\<close>)
  note at_guard = submit_at_guard [OF g1 g2 g3 g4 g5 g6 g7, of now_guard now_persist]
  have g8: "\<not> now_guard > dueDate a"
    by (rule ccontr) (use ok at_guard in simp)
  let ?s = "\<lparr>student = user_id u, content = trim body_content,
                    attachments = upload_files files,
                    status = (if now_persist > dueDate a then Late else Submitted),
                    marks = None, feedback = None\<rparr>"
  from ok at_guard g8 have s: "sub = ?s"
    and "d1 = saveAssignment (a\<lparr>submissions := submissions a @ [?s]\<rparr>)
                       (d\<lparr>cloudinary := cloudinary d @ stored_files files\<rparr>)"
    by (auto simp add: Let_def)
  then have "sub = ?s"
    and "d1 = saveAssignment (a\<lparr>submissions := submissions a @ [sub]\<rparr>)
                       (d\<lparr>cloudinary := cloudinary d @ stored_files files\<rparr>)"
    by simp_all
  with g1 g2 g3 g4 g5 g6 g7 g8 show thesis by (rule that)
qed



lemma trim_answer: "trim (str ''answer'') = (str ''answer'')"
  by (simp add: trim_def is_space_def str_def)

lemma example_gates:
  "authorize [Student] actor_S" "authorize [Student] actor_S2"
  "authorize [Instructor] actor_I" "authorize [Instructor] actor_J"
  "upload_array 5 (map fst [])"
  by (simp_all add: authorize_def upload_array_def example_defs)

lemma first_submit: "submitAssignment db0 actor_S A_id (str ''answer'') [] 0 0 = (Inr sub_S, db1)"
proof -
  have h6: "user_id actor_S \<in> set (students course_C)" by (simp add: example_defs)
  have h7: "find (\<lambda>sub. student sub = user_id actor_S) (submissions assignment_A) = None"
    by (simp add: assignment_A_def)
  show ?thesis
    using submit_at_guard [OF example_gates(1) example_gates(5) answer_valid
        example_lookups(1) example_lookups(2) h6 h7, of 0 0]
    by (simp add: trim_answer Let_def saveAssignment_def example_defs)
qed

text \<open>
  A content of white space only, here a single no-break space, is empty once the
  sanitizer of line 115 has trimmed it, and the request is answered by the validator.
\<close>

lemma nbsp_content_rejected:
  "trim nbsp = [] \<and> submitAssignment db0 actor_S A_id nbsp [] 0 0 = (Inl ValidationErrors, db0)"
  using example_gates(1) example_gates(5)
  by (simp add: submitAssignment_def notEmpty_def trim_def is_space_def nbsp_def)

section \<open>Attachments of a submission\<close>

lemma upload_files_filter:
  "upload_files files =
     map (\<lambda>(f, r). \<lparr>att_name = originalname f, att_url = secure_url (the r), att_type = mimetype f\<rparr>)
         (filter (\<lambda>(f, r). r \<noteq> None) files)"
  by (induction files rule: upload_files.induct) simp_all

text \<open>
  Claim C7. Take a submit request with valid content by an enrolled student before the
  deadline. Whether it fails does not depend on what the Blob Store answers: it fails
  exactly when multer refuses the files (more than five, or one over the size limit) or
  the student has submitted before. In every other case it succeeds whatever subset of
  the uploads fails, the submission is appended to the assignment's list, and its
  attachments are, in order, those of the files whose upload succeeded.
\<close>

theorem upload_failures_absorbed:
  assumes valid: "notEmpty (trim body_content)"
    and student: "authorize [Student] u"
    and fa: "findAssignment d aid = Some a" and fc: "findCourse d (course a) = Some c"
    and enrolled: "user_id u \<in> set (students c)"
    and before: "\<not> now_guard > dueDate a"
  shows "((\<exists>e. fst (submitAssignment d u aid body_content files now_guard now_persist) = Inl e)
            \<longleftrightarrow> \<not> upload_array 5 (map fst files)
                \<or> find (\<lambda>sub. student sub = user_id u) (submissions a) \<noteq> None)
      \<and> (upload_array 5 (map fst files)
           \<and> find (\<lambda>sub. student sub = user_id u) (submissions a) = None \<longrightarrow>
          (\<exists>sub d'. submitAssignment d u aid body_content files now_guard now_persist = (Inr sub, d')
             \<and> findAssignment d' aid = Some (a\<lparr>submissions := submissions a @ [sub]\<rparr>)
             \<and> attachments sub =
                 map (\<lambda>(f, r). \<lparr>att_name = originalname f, att_url = secure_url (the r), att_type = mimetype f\<rparr>)
                     (filter (\<lambda>(f, r). r \<noteq> None) files)))"
proof (intro conjI impI)
  show "(\<exists>e. fst (submitAssignment d u aid body_content files now_guard now_persist) = Inl e)
            \<longleftrightarrow> \<not> upload_array 5 (map fst files)
                \<or> find (\<lambda>sub. student sub = user_id u) (submissions a) \<noteq> None"
    using assms by (auto simp add: submitAssignment_def Let_def split: option.splits)
next
  assume ok: "upload_array 5 (map fst files)
           \<and> find (\<lambda>sub. student sub = user_id u) (submissions a) = None"
  define sub where "sub = \<lparr>student = user_id u, content = trim body_content,
                    attachments = upload_files files,
                    status = (if now_persist > dueDate a then Late else Submitted),
                    marks = None, feedback = None\<rparr>"
  define d' where "d' = saveAssignment (a\<lparr>submissions := submissions a @ [sub]\<rparr>)
                       (d\<lparr>cloudinary := cloudinary d @ stored_files files\<rparr>)"
  have run: "submitAssignment d u aid body_content files now_guard now_persist = (Inr sub, d')"
    using submit_at_guard [of u files body_content d aid a c now_guard now_persist] assms ok
    by (simp add: sub_def d'_def Let_def)
  have "a_id a = aid" using fa by (rule findAssignment_id)
  then have stored: "findAssignment d' aid = Some (a\<lparr>submissions := submissions a @ [sub]\<rparr>)"
    unfolding d'_def using fa by (intro findAssignment_save_same) simp_all
  have atts: "attachments sub =
                 map (\<lambda>(f, r). \<lparr>att_name = originalname f, att_url = secure_url (the r), att_type = mimetype f\<rparr>)
                     (filter (\<lambda>(f, r). r \<noteq> None) files)"
    by (simp add: sub_def upload_files_filter)
  from run stored atts
  show "\<exists>sub d'. submitAssignment d u aid body_content files now_guard now_persist = (Inr sub, d')
             \<and> findAssignment d' aid = Some (a\<lparr>submissions := submissions a @ [sub]\<rparr>)
             \<and> attachments sub =
                 map (\<lambda>(f, r). \<lparr>att_name = originalname f, att_url = secure_url (the r), att_type = mimetype f\<rparr>)
                     (filter (\<lambda>(f, r). r \<noteq> None) files)"
    by blast
qed

theorem upload_failures_absorbed_witness:
  "notEmpty (trim (str ''answer'')) \<and> authorize [Student] actor_S
   \<and> findAssignment db0 A_id = Some assignment_A
   \<and> findCourse db0 (course assignment_A) = Some course_C
   \<and> user_id actor_S \<in> set (students course_C) \<and> \<not> 0 > dueDate assignment_A
   \<and> upload_array 5 (map fst three_files)
   \<and> find (\<lambda>sub. student sub = user_id actor_S) (submissions assignment_A) = None
   \<and> (\<exists>sub d'. submitAssignment db0 actor_S A_id (str ''answer'') three_files 0 0 = (Inr sub, d')
         \<and> findAssignment d' A_id = Some (assignment_A\<lparr>submissions := [sub]\<rparr>)
         \<and> attachments sub =
              [\<lparr>att_name = (str ''essay.pdf''), att_url = (str ''https://blob/essay''), att_type = (str ''application/pdf'')\<rparr>,
               \<lparr>att_name = (str ''notes.txt''), att_url = (str ''https://blob/notes''), att_type = (str ''text/plain'')\<rparr>])"
proof -
  have enrolled: "user_id actor_S \<in> set (students course_C)" by (simp add: example_defs)
  have before: "\<not> 0 > dueDate assignment_A" by (simp add: assignment_A_def)
  have three: "upload_array 5 (map fst three_files)"
    by (simp add: upload_array_def three_files_def assignment_fileSize_def
          file_pdf_def file_png_def file_txt_def)
  have fresh: "find (\<lambda>sub. student sub = user_id actor_S) (submissions assignment_A) = None"
    and none: "submissions assignment_A = []"
    by (simp_all add: assignment_A_def)
  have atts: "map (\<lambda>(f, r). \<lparr>att_name = originalname f, att_url = secure_url (the r), att_type = mimetype f\<rparr>)
                 (filter (\<lambda>(f, r). r \<noteq> None) three_files) =
              [\<lparr>att_name = (str ''essay.pdf''), att_url = (str ''https://blob/essay''), att_type = (str ''application/pdf'')\<rparr>,
               \<lparr>att_name = (str ''notes.txt''), att_url = (str ''https://blob/notes''), att_type = (str ''text/plain'')\<rparr>]"
    by (simp add: three_files_def file_pdf_def file_png_def file_txt_def stored_pdf_def stored_txt_def)
  from upload_failures_absorbed [OF answer_valid example_gates(1) example_lookups(1)
      example_lookups(2) enrolled before, of three_files 0] three fresh
  obtain sub d' where
    run: "submitAssignment db0 actor_S A_id (str ''answer'') three_files 0 0 = (Inr sub, d')"
    and stored: "findAssignment d' A_id
                  = Some (assignment_A\<lparr>submissions := submissions assignment_A @ [sub]\<rparr>)"
    and "attachments sub =
           map (\<lambda>(f, r). \<lparr>att_name = originalname f, att_url = secure_url (the r), att_type = mimetype f\<rparr>)
               (filter (\<lambda>(f, r). r \<noteq> None) three_files)"
    by blast
  then have "attachments sub =
              [\<lparr>att_name = (str ''essay.pdf''), att_url = (str ''https://blob/essay''), att_type = (str ''application/pdf'')\<rparr>,
               \<lparr>att_name = (str ''notes.txt''), att_url = (str ''https://blob/notes''), att_type = (str ''text/plain'')\<rparr>]"
    by (simp only: atts)
  with run stored
  have "\<exists>sub d'. submitAssignment db0 actor_S A_id (str ''answer'') three_files 0 0 = (Inr sub, d')
         \<and> findAssignment d' A_id = Some (assignment_A\<lparr>submissions := [sub]\<rparr>)
         \<and> attachments sub =
              [\<lparr>att_name = (str ''essay.pdf''), att_url = (str ''https://blob/essay''), att_type = (str ''application/pdf'')\<rparr>,
               \<lparr>att_name = (str ''notes.txt''), att_url = (str ''https://blob/notes''), att_type = (str ''text/plain'')\<rparr>]"
    by (auto simp add: none)
  with answer_valid example_gates(1) example_lookups enrolled before three fresh
  show ?thesis by blast
qed

section \<open>Properties of grading\<close>

lemma saveAssignment_frame [simp]:
  "Course (saveAssignment a d) = Course d"
  "Lecture (saveAssignment a d) = Lecture d"
  "cloudinary (saveAssignment a d) = cloudinary d"
  by (simp_all add: saveAssignment_def)

lemma saveAssignment_idem: "saveAssignment a (saveAssignment a d) = saveAssignment a d"
  by (simp add: saveAssignment_def)

lemma grade_first_idem:
  "grade_first sid m fb (grade_first sid m fb ss) = grade_first sid m fb ss"
  by (induction ss) auto

text \<open>The list that grading leaves: the first submission of the student rewritten in place.\<close>

lemma grade_first_split:
  assumes "find (\<lambda>s. student s = sid) ss = Some s"
  shows "\<exists>pre post. ss = pre @ s # post \<and> (\<forall>x\<in>set pre. student x \<noteq> sid)
           \<and> grade_first sid m fb ss = pre @ s\<lparr>marks := Some m, feedback := Some fb, status := Graded\<rparr> # post"
  using assms
proof (induction ss)
  case Nil
  then show ?case by simp
next
  case (Cons x xs)
  show ?case
  proof (cases "student x = sid")
    case True
    with Cons.prems have "x = s" by simp
    with True show ?thesis by (intro exI [of _ "[]"] exI [of _ xs]) simp
  next
    case False
    with Cons.prems have "find (\<lambda>s. student s = sid) xs = Some s" by simp
    from Cons.IH [OF this] obtain pre post where
      "xs = pre @ s # post" "\<forall>x\<in>set pre. student x \<noteq> sid"
      "grade_first sid m fb xs = pre @ s\<lparr>marks := Some m, feedback := Some fb, status := Graded\<rparr> # post"
      by blast
    with False show ?thesis
      by (intro exI [of _ "x # pre"] exI [of _ post]) simp
  qed
qed

lemma find_grade_first:
  assumes "find (\<lambda>s. student s = sid) ss = Some s"
  shows "find (\<lambda>s. student s = sid) (grade_first sid m fb ss)
           = Some (s\<lparr>marks := Some m, feedback := Some fb, status := Graded\<rparr>)"
  using assms by (induction ss) (auto split: if_splits)

lemma grade_at_submission:
  assumes "authorize [Instructor] u" and "grade_valid b"
    and "findAssignment d aid = Some a" and "instructor a = user_id u"
    and "find (\<lambda>sub. student sub = g_studentId b) (submissions a) = Some sub"
  shows "gradeSubmission d u aid b =
           (Inr (sub\<lparr>marks := Some (g_marks b), feedback := Some (feedback_of b), status := Graded\<rparr>),
            saveAssignment
              (a\<lparr>submissions := grade_first (g_studentId b) (g_marks b) (feedback_of b) (submissions a)\<rparr>) d)"
  using assms by (simp add: gradeSubmission_def)

lemma grade_success_cases:
  assumes ok: "gradeSubmission d u aid b = (Inr s', d')"
  obtains a sub where
    "authorize [Instructor] u" "grade_valid b" "findAssignment d aid = Some a"
    "instructor a = user_id u"
    "find (\<lambda>sub. student sub = g_studentId b) (submissions a) = Some sub"
    "s' = sub\<lparr>marks := Some (g_marks b), feedback := Some (feedback_of b), status := Graded\<rparr>"
    "d' = saveAssignment
              (a\<lparr>submissions := grade_first (g_studentId b) (g_marks b) (feedback_of b) (submissions a)\<rparr>) d"
proof -
  have g1: "authorize [Instructor] u"
    by (rule ccontr) (use ok in \<open>simp add: gradeSubmission_def\<close>)
  have g2: "grade_valid b"
    by (rule ccontr) (use ok g1 in \<open>simp add: gradeSubmission_def\<close>)
  obtain a where g3: "findAssignment d aid = Some a"
    by (cases "findAssignment d aid") (use ok g1 g2 in \<open>simp_all add: gradeSubmission_def\<close>)
  have g4: "instructor a = user_id u"
    by (rule ccontr) (use ok g1 g2 g3 in \<open>simp add: gradeSubmission_def\<close>)
  obtain sub where g5: "find (\<lambda>sub. student sub = g_studentId b) (submissions a) = Some sub"
    by (cases "find (\<lambda>sub. student sub = g_studentId b) (submissions a)")
       (use ok g1 g2 g3 g4 in \<open>simp_all add: gradeSubmission_def\<close>)
  from ok grade_at_submission [OF g1 g2 g3 g4 g5]
  have "s' = sub\<lparr>marks := Some (g_marks b), feedback := Some (feedback_of b), status := Graded\<rparr>"
    "d' = saveAssignment
              (a\<lparr>submissions := grade_first (g_studentId b) (g_marks b) (feedback_of b) (submissions a)\<rparr>) d"
    by auto
  with g1 g2 g3 g4 g5 show thesis by (rule that)
qed

lemma example_bodies:
  "grade_valid grade_85" "grade_valid grade_90" "\<not> grade_valid grade_abc" "grade_valid grade_S2"
  "feedback_of grade_85 = (str ''good'')" "feedback_of grade_90 = []" "feedback_of grade_S2 = (str ''late'')"
  by (simp_all add: grade_valid_def isMongoId_def isHexadecimal_def is_hex_def isNumeric_def is_digit_def str_def
        feedback_of_def trim_def is_space_def str_def grade_85_def grade_90_def grade_abc_def grade_S2_def
        S_id_def S2_id_def)

lemma example_lookups_later:
  "findAssignment db1 A_id = Some (assignment_A\<lparr>submissions := [sub_S]\<rparr>)"
  "findAssignment db2 A_id = Some (assignment_A\<lparr>submissions := [sub_S, sub_S2]\<rparr>)"
  by (simp_all add: findAssignment_def db1_def db2_def db0_def assignment_A_def)

text \<open>
  Claim C3, as the code has it. On an assignment that holds a submission of the student,
  the assignment's instructor grades that submission and then grades it again. Both
  requests succeed, and afterwards the student's submission is the original one with
  the marks of the second request, with status graded, and with the feedback of the
  second request as the sanitizer of line 232 and the default of line 240 leave it:
  trimmed of leading and trailing white space, and the empty string when the body has
  none. Grading a second time with the same body changes nothing.
\<close>

theorem grade_twice_keeps_second:
  assumes role: "authorize [Instructor] u"
    and fa: "findAssignment d aid = Some a" and owner: "instructor a = user_id u"
    and existing: "find (\<lambda>s. student s = sid) (submissions a) = Some s0"
    and b1: "grade_valid b1" "g_studentId b1 = sid"
    and b2: "grade_valid b2" "g_studentId b2 = sid"
  shows "\<exists>s1 d1 s2 d2 a2.
           gradeSubmission d u aid b1 = (Inr s1, d1)
         \<and> gradeSubmission d1 u aid b2 = (Inr s2, d2)
         \<and> findAssignment d2 aid = Some a2
         \<and> find (\<lambda>s. student s = sid) (submissions a2) = Some s2
         \<and> marks s2 = Some (g_marks b2)
         \<and> feedback s2 = Some (case g_feedback b2 of None \<Rightarrow> [] | Some f \<Rightarrow> trim f)
         \<and> status s2 = Graded
         \<and> s2 = s0\<lparr>marks := Some (g_marks b2),
                    feedback := Some (case g_feedback b2 of None \<Rightarrow> [] | Some f \<Rightarrow> trim f),
                    status := Graded\<rparr>
         \<and> (b2 = b1 \<longrightarrow> s2 = s1 \<and> d2 = d1)"
proof -
  let ?g = "\<lambda>b. grade_first sid (g_marks b) (feedback_of b)"
  let ?upd = "\<lambda>b s. s\<lparr>marks := Some (g_marks b), feedback := Some (feedback_of b), status := Graded\<rparr>"
  define a1 where "a1 = a\<lparr>submissions := ?g b1 (submissions a)\<rparr>"
  define d1 where "d1 = saveAssignment a1 d"
  define a2 where "a2 = a1\<lparr>submissions := ?g b2 (submissions a1)\<rparr>"
  define d2 where "d2 = saveAssignment a2 d1"
  have aid: "a_id a = aid" using fa by (rule findAssignment_id)
  have run1: "gradeSubmission d u aid b1 = (Inr (?upd b1 s0), d1)"
    using grade_at_submission [OF role b1(1) fa owner] existing b1(2)
    by (simp add: d1_def a1_def)
  have fa1: "findAssignment d1 aid = Some a1"
    unfolding d1_def using fa aid by (intro findAssignment_save_same) (simp_all add: a1_def)
  have owner1: "instructor a1 = user_id u" using owner by (simp add: a1_def)
  have ex1: "find (\<lambda>s. student s = sid) (submissions a1) = Some (?upd b1 s0)"
    using existing by (simp add: a1_def find_grade_first)
  have run2: "gradeSubmission d1 u aid b2 = (Inr (?upd b2 s0), d2)"
    using grade_at_submission [OF role b2(1) fa1 owner1] ex1 b2(2)
    by (simp add: d2_def a2_def)
  have fa2: "findAssignment d2 aid = Some a2"
    unfolding d2_def using fa1 aid by (intro findAssignment_save_same) (simp_all add: a2_def a1_def)
  have ex2: "find (\<lambda>s. student s = sid) (submissions a2) = Some (?upd b2 s0)"
    using find_grade_first [OF ex1, of "g_marks b2" "feedback_of b2"] by (simp add: a2_def)
  have idem: "b2 = b1 \<longrightarrow> ?upd b2 s0 = ?upd b1 s0 \<and> d2 = d1"
  proof
    assume "b2 = b1"
    then have "a2 = a1" by (simp add: a2_def a1_def grade_first_idem)
    then show "?upd b2 s0 = ?upd b1 s0 \<and> d2 = d1"
      using \<open>b2 = b1\<close> by (simp add: d2_def d1_def saveAssignment_idem)
  qed
  from run1 run2 fa2 ex2 idem show ?thesis by (simp add: feedback_of_def)
qed

lemma example_padded:
  "grade_valid grade_padded" "g_studentId grade_padded = S_id"
  "g_marks grade_padded = str ''90.5''" "g_feedback grade_padded = Some (str ''  well done '')"
  "trim (str ''  well done '') = str ''well done''"
  by (simp_all add: grade_valid_def isMongoId_def isHexadecimal_def is_hex_def isNumeric_def
        is_digit_def trim_def is_space_def str_def grade_padded_def S_id_def)

theorem grade_twice_keeps_second_witness:
  "authorize [Instructor] actor_I
   \<and> findAssignment db1 A_id = Some (assignment_A\<lparr>submissions := [sub_S]\<rparr>)
   \<and> instructor (assignment_A\<lparr>submissions := [sub_S]\<rparr>) = user_id actor_I
   \<and> find (\<lambda>s. student s = S_id) (submissions (assignment_A\<lparr>submissions := [sub_S]\<rparr>)) = Some sub_S
   \<and> grade_valid grade_85 \<and> g_studentId grade_85 = S_id
   \<and> grade_valid grade_90 \<and> g_studentId grade_90 = S_id
   \<and> grade_valid grade_padded \<and> g_studentId grade_padded = S_id
   \<and> g_marks grade_85 \<noteq> g_marks grade_padded
   \<and> g_feedback grade_85 = Some (str ''good'')
   \<and> g_feedback grade_padded = Some (str ''  well done '') \<and> g_feedback grade_90 = None
   \<and> fst (gradeSubmission (snd (gradeSubmission db1 actor_I A_id grade_85)) actor_I A_id grade_padded)
       = Inr (sub_S\<lparr>marks := Some (str ''90.5''), feedback := Some (str ''well done''), status := Graded\<rparr>)
   \<and> fst (gradeSubmission (snd (gradeSubmission db1 actor_I A_id grade_85)) actor_I A_id grade_90)
       = Inr (sub_S\<lparr>marks := Some (str ''90.5''), feedback := Some [], status := Graded\<rparr>)
   \<and> snd (gradeSubmission (snd (gradeSubmission db1 actor_I A_id grade_85)) actor_I A_id grade_85)
       = snd (gradeSubmission db1 actor_I A_id grade_85)"
proof -
  have owner: "instructor (assignment_A\<lparr>submissions := [sub_S]\<rparr>) = user_id actor_I"
    by (simp add: assignment_A_def actor_I_def)
  have existing: "find (\<lambda>s. student s = S_id) (submissions (assignment_A\<lparr>submissions := [sub_S]\<rparr>)) = Some sub_S"
    by (simp add: sub_S_def)
  have ids: "g_studentId grade_85 = S_id" "g_studentId grade_90 = S_id"
    and marks: "g_marks grade_85 \<noteq> g_marks grade_padded" "g_marks grade_90 = str ''90.5''"
    and given: "g_feedback grade_85 = Some (str ''good'')" "g_feedback grade_90 = None"
    by (simp_all add: grade_85_def grade_90_def grade_padded_def)
  note twice = grade_twice_keeps_second
    [OF example_gates(3) example_lookups_later(1) owner existing example_bodies(1) ids(1)]
  from twice [OF example_padded(1) example_padded(2)]
  have padded: "fst (gradeSubmission (snd (gradeSubmission db1 actor_I A_id grade_85)) actor_I A_id grade_padded)
       = Inr (sub_S\<lparr>marks := Some (str ''90.5''), feedback := Some (str ''well done''), status := Graded\<rparr>)"
    by (auto simp add: example_padded(3) example_padded(4) example_padded(5))
  from twice [OF example_bodies(2) ids(2)]
  have second: "fst (gradeSubmission (snd (gradeSubmission db1 actor_I A_id grade_85)) actor_I A_id grade_90)
       = Inr (sub_S\<lparr>marks := Some (str ''90.5''), feedback := Some [], status := Graded\<rparr>)"
    by (auto simp add: marks(2) given(2))
  from twice [OF example_bodies(1) ids(1)]
  have same: "snd (gradeSubmission (snd (gradeSubmission db1 actor_I A_id grade_85)) actor_I A_id grade_85)
       = snd (gradeSubmission db1 actor_I A_id grade_85)"
    by auto
  from padded second same owner existing ids marks(1) given example_gates(3) example_lookups_later(1)
    example_bodies(1) example_bodies(2) example_padded(1) example_padded(2) example_padded(4)
  show ?thesis by blast
qed

text \<open>
  The claim as stated fails: after a first grade, instructor I grades the submission of S
  again with a feedback that has white space around it, and what the submission then
  holds is not the feedback of that request but its trimmed form.
\<close>

theorem grade_padded_feedback_counterexample:
  "gradeSubmission db1 actor_I A_id grade_85
     = (Inr (sub_S\<lparr>marks := Some (str ''85''), feedback := Some (str ''good''), status := Graded\<rparr>),
        db0\<lparr>Assignment := [assignment_A\<lparr>submissions :=
               [sub_S\<lparr>marks := Some (str ''85''), feedback := Some (str ''good''), status := Graded\<rparr>]\<rparr>]\<rparr>)
   \<and> g_feedback grade_padded = Some (str ''  well done '')
   \<and> gradeSubmission
         (db0\<lparr>Assignment := [assignment_A\<lparr>submissions :=
               [sub_S\<lparr>marks := Some (str ''85''), feedback := Some (str ''good''), status := Graded\<rparr>]\<rparr>]\<rparr>)
         actor_I A_id grade_padded
     = (Inr (sub_S\<lparr>marks := Some (str ''90.5''), feedback := Some (str ''well done''), status := Graded\<rparr>),
        db0\<lparr>Assignment := [assignment_A\<lparr>submissions :=
               [sub_S\<lparr>marks := Some (str ''90.5''), feedback := Some (str ''well done''), status := Graded\<rparr>]\<rparr>]\<rparr>)
   \<and> str ''well done'' \<noteq> str ''  well done ''"
proof -
  have fb: "feedback_of grade_padded = str ''well done''"
    by (simp add: feedback_of_def example_padded(4) example_padded(5))
  have first: "gradeSubmission db1 actor_I A_id grade_85
     = (Inr (sub_S\<lparr>marks := Some (str ''85''), feedback := Some (str ''good''), status := Graded\<rparr>),
        db0\<lparr>Assignment := [assignment_A\<lparr>submissions :=
               [sub_S\<lparr>marks := Some (str ''85''), feedback := Some (str ''good''), status := Graded\<rparr>]\<rparr>]\<rparr>)"
    using example_gates(3) example_bodies(1) example_bodies(5)
    by (simp add: gradeSubmission_def findAssignment_def saveAssignment_def db1_def db0_def
          assignment_A_def actor_I_def sub_S_def grade_85_def A_id_def)
  have second: "gradeSubmission
         (db0\<lparr>Assignment := [assignment_A\<lparr>submissions :=
               [sub_S\<lparr>marks := Some (str ''85''), feedback := Some (str ''good''), status := Graded\<rparr>]\<rparr>]\<rparr>)
         actor_I A_id grade_padded
     = (Inr (sub_S\<lparr>marks := Some (str ''90.5''), feedback := Some (str ''well done''), status := Graded\<rparr>),
        db0\<lparr>Assignment := [assignment_A\<lparr>submissions :=
               [sub_S\<lparr>marks := Some (str ''90.5''), feedback := Some (str ''well done''), status := Graded\<rparr>]\<rparr>]\<rparr>)"
    using example_gates(3) example_padded(1) fb
    by (simp add: gradeSubmission_def findAssignment_def saveAssignment_def db0_def
          assignment_A_def actor_I_def sub_S_def example_padded(2) example_padded(3) A_id_def)
  from first second example_padded(4) show ?thesis by simp
qed

text \<open>
  Claim C10. A grade request that succeeds changes three fields of one submission and
  nothing else: the assignment's list of submissions is the old one with the first
  submission of the targeted student replaced by a copy that differs in marks, feedback
  and status only; the assignment is otherwise the same document; every other
  assignment, the courses, the lectures and the Blob Store are as before.
\<close>

theorem grade_changes_only_target:
  assumes ok: "gradeSubmission d u aid b = (Inr s', d')"
  shows "\<exists>a pre s post.
           findAssignment d aid = Some a
         \<and> submissions a = pre @ s # post
         \<and> student s = g_studentId b \<and> (\<forall>x\<in>set pre. student x \<noteq> g_studentId b)
         \<and> s' = s\<lparr>marks := Some (g_marks b), feedback := Some (feedback_of b), status := Graded\<rparr>
         \<and> student s' = student s \<and> content s' = content s \<and> attachments s' = attachments s
         \<and> findAssignment d' aid = Some (a\<lparr>submissions := pre @ s' # post\<rparr>)
         \<and> (\<forall>i. i \<noteq> aid \<longrightarrow> findAssignment d' i = findAssignment d i)
         \<and> Course d' = Course d \<and> Lecture d' = Lecture d \<and> cloudinary d' = cloudinary d"
proof -
  from ok obtain a s where
    fa: "findAssignment d aid = Some a"
    and fs: "find (\<lambda>sub. student sub = g_studentId b) (submissions a) = Some s"
    and s': "s' = s\<lparr>marks := Some (g_marks b), feedback := Some (feedback_of b), status := Graded\<rparr>"
    and d': "d' = saveAssignment
              (a\<lparr>submissions := grade_first (g_studentId b) (g_marks b) (feedback_of b) (submissions a)\<rparr>) d"
    by (elim grade_success_cases)
  from grade_first_split [OF fs, of "g_marks b" "feedback_of b"] obtain pre post where
    split: "submissions a = pre @ s # post" "\<forall>x\<in>set pre. student x \<noteq> g_studentId b"
    and graded: "grade_first (g_studentId b) (g_marks b) (feedback_of b) (submissions a) = pre @ s' # post"
    unfolding s' by blast
  have sid: "student s = g_studentId b"
    using fs by (auto dest: find_Some_pred)
  have aid: "a_id a = aid" using fa by (rule findAssignment_id)
  have stored: "findAssignment d' aid = Some (a\<lparr>submissions := pre @ s' # post\<rparr>)"
    unfolding d' graded using fa aid by (intro findAssignment_save_same) simp_all
  have others: "\<forall>i. i \<noteq> aid \<longrightarrow> findAssignment d' i = findAssignment d i"
    unfolding d' using aid by (simp add: findAssignment_save_other)
  have rest: "Course d' = Course d \<and> Lecture d' = Lecture d \<and> cloudinary d' = cloudinary d"
    unfolding d' by simp
  have same: "student s' = student s \<and> content s' = content s \<and> attachments s' = attachments s"
    by (simp add: s')
  from fa split sid s' same stored others rest show ?thesis by blast
qed

theorem grade_changes_only_target_witness:
  "gradeSubmission db2 actor_I A_id grade_S2
     = (Inr (sub_S2\<lparr>marks := Some (str ''70''), feedback := Some (str ''late''), status := Graded\<rparr>),
        db0\<lparr>Assignment := [assignment_A\<lparr>submissions :=
               [sub_S, sub_S2\<lparr>marks := Some (str ''70''), feedback := Some (str ''late''), status := Graded\<rparr>]\<rparr>]\<rparr>)
   \<and> (\<exists>pre s post.
          [sub_S, sub_S2] = pre @ s # post \<and> pre = [sub_S] \<and> s = sub_S2
          \<and> findAssignment (snd (gradeSubmission db2 actor_I A_id grade_S2)) A_id
               = Some (assignment_A\<lparr>submissions :=
                    pre @ s\<lparr>marks := Some (str ''70''), feedback := Some (str ''late''), status := Graded\<rparr> # post\<rparr>))
   \<and> Course (snd (gradeSubmission db2 actor_I A_id grade_S2)) = Course db2
   \<and> cloudinary (snd (gradeSubmission db2 actor_I A_id grade_S2)) = cloudinary db2"
proof -
  let ?graded = "sub_S2\<lparr>marks := Some (str ''70''), feedback := Some (str ''late''), status := Graded\<rparr>"
  let ?db = "db0\<lparr>Assignment := [assignment_A\<lparr>submissions := [sub_S, ?graded]\<rparr>]\<rparr>"
  have owner: "instructor (assignment_A\<lparr>submissions := [sub_S, sub_S2]\<rparr>) = user_id actor_I"
    by (simp add: assignment_A_def actor_I_def)
  have different: "student sub_S \<noteq> S2_id" and target: "student sub_S2 = S2_id"
    and body: "g_studentId grade_S2 = S2_id" "g_marks grade_S2 = (str ''70'')"
    by (simp_all add: sub_S_def sub_S2_def S_id_def S2_id_def grade_S2_def)
  have existing: "find (\<lambda>sub. student sub = g_studentId grade_S2)
                    (submissions (assignment_A\<lparr>submissions := [sub_S, sub_S2]\<rparr>)) = Some sub_S2"
    using different target body by simp
  have run: "gradeSubmission db2 actor_I A_id grade_S2 = (Inr ?graded, ?db)"
    using grade_at_submission [OF example_gates(3) example_bodies(4) example_lookups_later(2) owner existing]
      different target
    by (simp add: body example_bodies(7) saveAssignment_def db2_def db0_def assignment_A_def)
  from grade_changes_only_target [OF run] obtain a pre s post where
    a: "findAssignment db2 A_id = Some a" and sp: "submissions a = pre @ s # post"
    and s: "student s = g_studentId grade_S2" and pre: "\<forall>x\<in>set pre. student x \<noteq> g_studentId grade_S2"
    and stored: "findAssignment ?db A_id = Some (a\<lparr>submissions := pre @ ?graded # post\<rparr>)"
    and frame: "Course ?db = Course db2" "cloudinary ?db = cloudinary db2"
    by blast
  from a have a_eq: "a = assignment_A\<lparr>submissions := [sub_S, sub_S2]\<rparr>"
    by (simp add: example_lookups_later(2))
  have shape: "pre = [sub_S] \<and> s = sub_S2 \<and> post = []"
  proof (cases pre)
    case Nil
    with sp a_eq s body different show ?thesis by simp
  next
    case (Cons x xs)
    with sp a_eq have x: "x = sub_S" and rest: "[sub_S2] = xs @ s # post" by simp_all
    then show ?thesis using Cons by (cases xs) simp_all
  qed
  with sp a_eq stored frame run show ?thesis by simp
qed

section \<open>The gate of grading and of listing submissions\<close>

text \<open>
  Claim C4, as the code has it. With the state unchanged in every case: on an existing
  assignment, a request to list the submissions, and a request to grade whose body
  passes the validators, fail with Forbidden when the actor's id differs from the
  instructor stored on the assignment (the course is not consulted): with the answer of
  the ownership check for an actor in the instructor role, and with that of the role
  gate for any other. A validated grade request of the assignment's instructor, acting
  in the instructor role, for a student without a submission fails with NotFound. A
  grade request whose body fails the validators is answered before the assignment is
  read, whether or not it exists and whoever owns it: with a validation error for an
  actor in the instructor role, and by the role gate for any other.
\<close>

theorem grade_and_list_gate:
  "(findAssignment d aid = Some a \<and> user_id u \<noteq> instructor a \<longrightarrow>
      listSubmissions d u aid
        = (Inl (if user_role u = Instructor then NotAuthorizedViewSubmissions else AccessDenied), d)
      \<and> (grade_valid b \<longrightarrow>
           gradeSubmission d u aid b
             = (Inl (if user_role u = Instructor then NotAuthorizedGrade else AccessDenied), d)))
   \<and> kind NotAuthorizedViewSubmissions = Forbidden \<and> kind NotAuthorizedGrade = Forbidden
   \<and> kind AccessDenied = Forbidden
   \<and> (findAssignment d aid = Some a \<and> user_id u = instructor a \<and> user_role u = Instructor
        \<and> grade_valid b
        \<and> find (\<lambda>sub. student sub = g_studentId b) (submissions a) = None \<longrightarrow>
      gradeSubmission d u aid b = (Inl SubmissionNotFound, d))
   \<and> kind SubmissionNotFound = NotFound
   \<and> (\<not> grade_valid b \<longrightarrow>
      gradeSubmission d u aid b
        = (Inl (if user_role u = Instructor then ValidationErrors else AccessDenied), d))
   \<and> kind ValidationErrors = ValidationError"
  by (auto simp add: listSubmissions_def gradeSubmission_def authorize_def)

lemma example_grade_0x:
  "grade_valid grade_0x"
  "find (\<lambda>sub. student sub = g_studentId grade_0x)
     (submissions (assignment_A\<lparr>submissions := [sub_S]\<rparr>)) = None"
  by (simp_all add: grade_valid_def isMongoId_def isHexadecimal_def is_hex_def isNumeric_def
        is_digit_def str_def grade_0x_def sub_S_def S_id_def)

theorem grade_and_list_gate_witness:
  "findAssignment db1 A_id = Some (assignment_A\<lparr>submissions := [sub_S]\<rparr>)
   \<and> user_id actor_J \<noteq> instructor (assignment_A\<lparr>submissions := [sub_S]\<rparr>)
   \<and> user_id actor_I = instructor (assignment_A\<lparr>submissions := [sub_S]\<rparr>)
   \<and> user_role actor_I = Instructor \<and> user_role actor_J = Instructor
   \<and> user_role actor_S2 \<noteq> Instructor
   \<and> grade_valid grade_85 \<and> grade_valid grade_S2 \<and> grade_valid grade_0x \<and> \<not> grade_valid grade_abc
   \<and> find (\<lambda>sub. student sub = g_studentId grade_S2)
        (submissions (assignment_A\<lparr>submissions := [sub_S]\<rparr>)) = None
   \<and> find (\<lambda>sub. student sub = g_studentId grade_0x)
        (submissions (assignment_A\<lparr>submissions := [sub_S]\<rparr>)) = None
   \<and> listSubmissions db1 actor_J A_id = (Inl NotAuthorizedViewSubmissions, db1)
   \<and> listSubmissions db1 actor_S2 A_id = (Inl AccessDenied, db1)
   \<and> gradeSubmission db1 actor_J A_id grade_85 = (Inl NotAuthorizedGrade, db1)
   \<and> gradeSubmission db1 actor_S2 A_id grade_85 = (Inl AccessDenied, db1)
   \<and> gradeSubmission db1 actor_I A_id grade_S2 = (Inl SubmissionNotFound, db1)
   \<and> gradeSubmission db1 actor_I A_id grade_0x = (Inl SubmissionNotFound, db1)
   \<and> gradeSubmission db1 actor_J A_id grade_abc = (Inl ValidationErrors, db1)
   \<and> gradeSubmission db1 actor_I B_id grade_abc = (Inl ValidationErrors, db1)
   \<and> gradeSubmission db1 actor_S2 A_id grade_abc = (Inl AccessDenied, db1)"
proof -
  let ?a = "assignment_A\<lparr>submissions := [sub_S]\<rparr>"
  have other: "user_id actor_J \<noteq> instructor ?a" "user_id actor_S2 \<noteq> instructor ?a"
    and owner: "user_id actor_I = instructor ?a"
    and role: "user_role actor_I = Instructor" "user_role actor_J = Instructor"
      "user_role actor_S2 \<noteq> Instructor"
    by (simp_all add: actor_J_def actor_I_def actor_S2_def assignment_A_def I_id_def J_id_def S2_id_def)
  have absent: "find (\<lambda>sub. student sub = g_studentId grade_S2) (submissions ?a) = None"
    by (simp add: grade_S2_def sub_S_def S_id_def S2_id_def)
  note found = example_lookups_later(1)
  from grade_and_list_gate [of db1 A_id ?a actor_J grade_85] found other(1) role(2) example_bodies(1)
  have J: "listSubmissions db1 actor_J A_id = (Inl NotAuthorizedViewSubmissions, db1)"
    "gradeSubmission db1 actor_J A_id grade_85 = (Inl NotAuthorizedGrade, db1)"
    by simp_all
  from grade_and_list_gate [of db1 A_id ?a actor_S2 grade_85] found other(2) role(3) example_bodies(1)
  have S2: "listSubmissions db1 actor_S2 A_id = (Inl AccessDenied, db1)"
    "gradeSubmission db1 actor_S2 A_id grade_85 = (Inl AccessDenied, db1)"
    by simp_all
  from grade_and_list_gate [of db1 A_id ?a actor_I grade_S2] found owner role(1) example_bodies(4) absent
  have missing: "gradeSubmission db1 actor_I A_id grade_S2 = (Inl SubmissionNotFound, db1)"
    by simp
  from grade_and_list_gate [of db1 A_id ?a actor_I grade_0x] found owner role(1) example_grade_0x
  have prefixed: "gradeSubmission db1 actor_I A_id grade_0x = (Inl SubmissionNotFound, db1)"
    by simp
  from grade_and_list_gate [of db1 A_id ?a actor_J grade_abc] role(2) example_bodies(3)
  have malformed_J: "gradeSubmission db1 actor_J A_id grade_abc = (Inl ValidationErrors, db1)"
    by simp
  from grade_and_list_gate [of db1 B_id ?a actor_I grade_abc] role(1) example_bodies(3)
  have malformed_I: "gradeSubmission db1 actor_I B_id grade_abc = (Inl ValidationErrors, db1)"
    by simp
  from grade_and_list_gate [of db1 A_id ?a actor_S2 grade_abc] role(3) example_bodies(3)
  have malformed_S2: "gradeSubmission db1 actor_S2 A_id grade_abc = (Inl AccessDenied, db1)"
    by simp
  from J S2 missing prefixed malformed_J malformed_I malformed_S2 found other(1) owner role absent
    example_bodies(1) example_bodies(3) example_bodies(4) example_grade_0x
  show ?thesis by blast
qed

text \<open>
  The claim as stated fails: J is not the instructor of assignment A, and J's grade
  request with marks that are not numeric is answered by the validator of line 236, a
  validation error, before the assignment is read.
\<close>

theorem grade_malformed_by_stranger_counterexample:
  "findAssignment db0 A_id = Some assignment_A \<and> user_id actor_J \<noteq> instructor assignment_A
   \<and> gradeSubmission db0 actor_J A_id grade_abc = (Inl ValidationErrors, db0)
   \<and> kind ValidationErrors \<noteq> Forbidden"
proof -
  have other: "user_id actor_J \<noteq> instructor assignment_A"
    by (simp add: actor_J_def assignment_A_def I_id_def J_id_def)
  from example_bodies(3) example_gates(4)
  have "gradeSubmission db0 actor_J A_id grade_abc = (Inl ValidationErrors, db0)"
    by (simp add: gradeSubmission_def)
  with other example_lookups(1) show ?thesis by simp
qed

section \<open>Listing assignments\<close>

text \<open>
  Claim C9. On an existing course, a request to list the assignments fails with
  Forbidden when the actor is neither among the course's students nor its instructor;
  otherwise it returns exactly the assignments whose course is the one asked for, each
  as often as the store holds it, ordered by creation time with the newest first. The
  state is unchanged either way.
\<close>

theorem list_assignments_gate_and_order:
  assumes fc: "findCourse d cid = Some c"
  shows "(user_id u \<notin> set (students c) \<and> c_instructor c \<noteq> user_id u \<longrightarrow>
            listAssignments d u cid = (Inl NotAuthorizedView, d) \<and> kind NotAuthorizedView = Forbidden)
       \<and> (user_id u \<in> set (students c) \<or> c_instructor c = user_id u \<longrightarrow>
            (\<exists>as. listAssignments d u cid = (Inr as, d)
               \<and> mset as = mset (filter (\<lambda>a. course a = cid) (Assignment d))
               \<and> sorted_wrt (\<lambda>x y. createdAt x \<ge> createdAt y) as))"
proof -
  let ?as = "sort_key (\<lambda>a. - createdAt a) (filter (\<lambda>a. course a = cid) (Assignment d))"
  have "sorted (map (\<lambda>a. - createdAt a) ?as)" by (rule sorted_sort_key)
  then have "sorted_wrt (\<lambda>x y. createdAt x \<ge> createdAt y) ?as"
    by (simp add: sorted_map)
  moreover have "mset ?as = mset (filter (\<lambda>a. course a = cid) (Assignment d))"
    by simp
  ultimately show ?thesis
    using fc by (auto simp add: listAssignments_def Let_def)
qed

lemma example_course_db3: "findCourse db3 C_id = Some (course_C\<lparr>assignments := [A_id, B_id]\<rparr>)"
  by (simp add: findCourse_def db3_def course_C_def)

lemma list_db3:
  "sort_key (\<lambda>a. - createdAt a) (filter (\<lambda>a. course a = C_id) (Assignment db3))
     = [assignment_B, assignment_A]"
  by (simp add: db3_def assignment_A_def assignment_B_def assignment_X_def C_id_def C2_id_def)

theorem list_assignments_gate_and_order_witness:
  "findCourse db3 C_id = Some (course_C\<lparr>assignments := [A_id, B_id]\<rparr>)
   \<and> user_id actor_J \<notin> set (students (course_C\<lparr>assignments := [A_id, B_id]\<rparr>))
   \<and> c_instructor (course_C\<lparr>assignments := [A_id, B_id]\<rparr>) \<noteq> user_id actor_J
   \<and> user_id actor_S \<in> set (students (course_C\<lparr>assignments := [A_id, B_id]\<rparr>))
   \<and> c_instructor (course_C\<lparr>assignments := [A_id, B_id]\<rparr>) = user_id actor_I
   \<and> listAssignments db3 actor_J C_id = (Inl NotAuthorizedView, db3)
   \<and> listAssignments db3 actor_S C_id = (Inr [assignment_B, assignment_A], db3)
   \<and> listAssignments db3 actor_I C_id = (Inr [assignment_B, assignment_A], db3)
   \<and> mset [assignment_B, assignment_A] = mset (filter (\<lambda>a. course a = C_id) (Assignment db3))
   \<and> sorted_wrt (\<lambda>x y. createdAt x \<ge> createdAt y) [assignment_B, assignment_A]"
proof -
  let ?c = "course_C\<lparr>assignments := [A_id, B_id]\<rparr>"
  have J: "user_id actor_J \<notin> set (students ?c)" "c_instructor ?c \<noteq> user_id actor_J"
    and S: "user_id actor_S \<in> set (students ?c)"
    and I: "c_instructor ?c = user_id actor_I"
    by (simp_all add: actor_J_def actor_S_def actor_I_def course_C_def I_id_def J_id_def S_id_def S2_id_def)
  note gate = list_assignments_gate_and_order [OF example_course_db3]
  have listed_S: "listAssignments db3 actor_S C_id = (Inr [assignment_B, assignment_A], db3)"
    and listed_I: "listAssignments db3 actor_I C_id = (Inr [assignment_B, assignment_A], db3)"
    using S I example_course_db3 by (simp_all add: listAssignments_def Let_def list_db3)
  from gate [of actor_S] S listed_S
  have "mset [assignment_B, assignment_A] = mset (filter (\<lambda>a. course a = C_id) (Assignment db3))"
    and "sorted_wrt (\<lambda>x y. createdAt x \<ge> createdAt y) [assignment_B, assignment_A]"
    by auto
  moreover from gate [of actor_J] J
  have "listAssignments db3 actor_J C_id = (Inl NotAuthorizedView, db3)"
    by simp
  ultimately show ?thesis
    using example_course_db3 J S I listed_S listed_I by blast
qed

section \<open>Uploading a lecture\<close>

text \<open>
  Claim C8. A lecture upload whose file is not a video is rejected with the state
  unchanged: by the role gate or, past it, by multer's filter, in either case before the
  handler and so before any write to the Blob Store or to the collections, even when the
  upload itself would have succeeded. A request without a video file is rejected with
  the state unchanged. A request whose upload the Blob Store fails is rejected with the
  state unchanged, so no lecture is stored and no course gains a reference; when every
  earlier check passes, the rejection is the answer of the \<^verbatim>\<open>catch\<close> branch to the
  failed upload.
\<close>

theorem upload_lecture_rejections:
  "(video = Some (f, r) \<and> \<not> startsWith (mimetype f) (str ''video/'') \<longrightarrow>
      (\<exists>e. uploadLecture d u b video new_id = (Inl e, d) \<and> (e = AccessDenied \<or> e = OnlyVideoFiles)))
   \<and> (video = None \<longrightarrow>
      (\<exists>e. uploadLecture d u b video new_id = (Inl e, d)
          \<and> (e = AccessDenied \<or> e = ValidationErrors \<or> e = VideoRequired)))
   \<and> (video = Some (f, None) \<longrightarrow>
      (\<exists>e. uploadLecture d u b video new_id = (Inl e, d))
      \<and> (authorize [Instructor] u \<and> fileFilter f \<and> f_size f \<le> lecture_fileSize \<and> lecture_valid b
           \<and> (\<exists>c. findCourse d (lb_course b) = Some c \<and> c_instructor c = user_id u) \<longrightarrow>
          uploadLecture d u b video new_id = (Inl ServerError, d)))"
  by (auto simp add: uploadLecture_def fileFilter_def split: option.splits)

lemma example_lecture_gates:
  "\<not> startsWith (mimetype file_pdf) (str ''video/'')" "fileFilter file_mp4"
  "f_size file_mp4 \<le> lecture_fileSize" "lecture_valid lecture_intro"
  "findCourse db0 (lb_course lecture_intro) = Some course_C"
  "c_instructor course_C = user_id actor_I"
  by (simp_all add: startsWith_def str_def fileFilter_def file_pdf_def file_mp4_def lecture_fileSize_def
        lecture_valid_def lecture_intro_def isLength_def presentationSequences_def is_high_surrogate_def is_low_surrogate_def trim_def is_space_def str_def isMongoId_def isHexadecimal_def
        is_hex_def C_id_def findCourse_def db0_def course_C_def actor_I_def)

theorem upload_lecture_rejections_witness:
  "\<not> startsWith (mimetype file_pdf) (str ''video/'')
   \<and> authorize [Instructor] actor_I \<and> fileFilter file_mp4 \<and> f_size file_mp4 \<le> lecture_fileSize
   \<and> lecture_valid lecture_intro
   \<and> findCourse db0 (lb_course lecture_intro) = Some course_C
   \<and> c_instructor course_C = user_id actor_I
   \<and> (\<exists>e. uploadLecture db0 actor_I lecture_intro (Some (file_pdf, Some stored_pdf)) L_id = (Inl e, db0)
         \<and> (e = AccessDenied \<or> e = OnlyVideoFiles))
   \<and> (\<exists>e. uploadLecture db0 actor_I lecture_intro None L_id = (Inl e, db0)
         \<and> (e = AccessDenied \<or> e = ValidationErrors \<or> e = VideoRequired))
   \<and> uploadLecture db0 actor_I lecture_intro (Some (file_mp4, None)) L_id = (Inl ServerError, db0)"
proof -
  note rejections = upload_lecture_rejections [of _ _ _ db0 actor_I lecture_intro L_id]
  from rejections [of "Some (file_pdf, Some stored_pdf)" file_pdf "Some stored_pdf"]
    example_lecture_gates(1)
  have not_video:
    "\<exists>e. uploadLecture db0 actor_I lecture_intro (Some (file_pdf, Some stored_pdf)) L_id = (Inl e, db0)
         \<and> (e = AccessDenied \<or> e = OnlyVideoFiles)"
    by blast
  from rejections [of None file_mp4 None]
  have missing: "\<exists>e. uploadLecture db0 actor_I lecture_intro None L_id = (Inl e, db0)
         \<and> (e = AccessDenied \<or> e = ValidationErrors \<or> e = VideoRequired)"
    by blast
  from rejections [of "Some (file_mp4, None)" file_mp4 None] example_gates(3) example_lecture_gates
  have failed: "uploadLecture db0 actor_I lecture_intro (Some (file_mp4, None)) L_id = (Inl ServerError, db0)"
    by blast
  from not_video missing failed example_gates(3) example_lecture_gates show ?thesis by blast
qed

section \<open>What each request does to the state\<close>

lemma submit_state:
  "snd (submitAssignment d u aid c fs g p) = d
   \<or> (\<exists>a sub. findAssignment d aid = Some a
        \<and> snd (submitAssignment d u aid c fs g p)
            = saveAssignment (a\<lparr>submissions := submissions a @ [sub]\<rparr>)
                (d\<lparr>cloudinary := cloudinary d @ stored_files fs\<rparr>))"
proof (cases "submitAssignment d u aid c fs g p")
  case (Pair r d')
  show ?thesis
  proof (cases r)
    case (Inl e)
    with Pair have "d' = d"
      by (simp add: submitAssignment_def Let_def split: if_splits option.splits)
    with Pair show ?thesis by simp
  next
    case (Inr sub)
    with Pair have run: "submitAssignment d u aid c fs g p = (Inr sub, d')" by simp
    then obtain a where "findAssignment d aid = Some a"
      and "d' = saveAssignment (a\<lparr>submissions := submissions a @ [sub]\<rparr>)
                       (d\<lparr>cloudinary := cloudinary d @ stored_files fs\<rparr>)"
      by (rule submit_success_cases)
    with run show ?thesis by auto
  qed
qed

lemma grade_state:
  "snd (gradeSubmission d u aid b) = d
   \<or> (\<exists>a ss. findAssignment d aid = Some a
        \<and> snd (gradeSubmission d u aid b) = saveAssignment (a\<lparr>submissions := ss\<rparr>) d)"
  by (auto simp add: gradeSubmission_def split: option.splits)

lemma update_state:
  "snd (updateAssignment d u aid b) = d
   \<or> (\<exists>a. findAssignment d aid = Some a
        \<and> snd (updateAssignment d u aid b) = saveAssignment (apply_update b a) d)"
  by (auto simp add: updateAssignment_def split: option.splits)

lemma delete_state:
  "snd (deleteAssignment d u aid) = d
   \<or> (\<exists>a c. findAssignment d aid = Some a \<and> findCourse d (course a) = Some c
        \<and> fst (deleteAssignment d u aid) = Inr ()
        \<and> snd (deleteAssignment d u aid) = findByIdAndDelete aid (pullAssignment (c_id c) (a_id a) d))"
  by (auto simp add: deleteAssignment_def split: option.splits)

lemma create_state:
  "snd (createAssignment d u b n t) = d
   \<or> (\<exists>a c. findAssignment d n = None \<and> a_id a = n \<and> instructor a = user_id u
        \<and> findCourse d (cr_course b) = Some c \<and> c_instructor c = user_id u
        \<and> fst (createAssignment d u b n t) = Inr a
        \<and> snd (createAssignment d u b n t)
            = saveCourse (c\<lparr>assignments := assignments c @ [n]\<rparr>) (d\<lparr>Assignment := Assignment d @ [a]\<rparr>))"
  by (auto simp add: createAssignment_def insertAssignment_def Let_def split: option.splits if_splits)

lemma lecture_state:
  "snd (uploadLecture d u b v n) = d
   \<or> (\<exists>r. snd (uploadLecture d u b v n) = d\<lparr>cloudinary := cloudinary d @ [r]\<rparr>)
   \<or> (\<exists>r l c. findCourse d (lb_course b) = Some c
        \<and> snd (uploadLecture d u b v n)
           = saveCourse (c\<lparr>lectures := lectures c @ [n]\<rparr>)
               (d\<lparr>cloudinary := cloudinary d @ [r], Lecture := Lecture d @ [l]\<rparr>))"
  by (auto simp add: uploadLecture_def insertLecture_def Let_def split: option.splits if_splits prod.splits)

lemma list_state [simp]:
  "snd (listAssignments d u cid) = d" "snd (listSubmissions d u aid) = d"
  by (auto simp add: listAssignments_def listSubmissions_def Let_def split: option.splits)


lemma find_append:
  "find P (xs @ ys) = (case find P xs of None \<Rightarrow> find P ys | Some x \<Rightarrow> Some x)"
  by (induction xs) auto

lemma find_filter_ids:
  "find (\<lambda>a. key a = i) (filter (\<lambda>a. key a \<noteq> j) xs)
     = (if i = j then None else find (\<lambda>a. key a = i) xs)"
  by (induction xs) auto

lemma saveAssignment_ids [simp]:
  "map a_id (Assignment (saveAssignment a d)) = map a_id (Assignment d)"
  by (simp add: saveAssignment_def)

lemma saveCourse_Assignment [simp]: "Assignment (saveCourse c d) = Assignment d"
  by (simp add: saveCourse_def)

lemma findAssignment_saveCourse [simp]: "findAssignment (saveCourse c d) i = findAssignment d i"
  by (simp add: findAssignment_def)

lemma findCourse_mem: "findCourse d i = Some c \<Longrightarrow> c \<in> set (Course d)"
  unfolding findCourse_def by (drule find_Some_pred) simp

lemma assignment_ids_save [simp]: "assignment_ids (saveAssignment a d) = assignment_ids d"
  unfolding assignment_ids_def by (simp only: saveAssignment_ids)

lemma assignment_ids_simps [simp]:
  "assignment_ids (saveCourse c d) = assignment_ids d"
  "assignment_ids (d\<lparr>cloudinary := b\<rparr>) = assignment_ids d"
  "assignment_ids (d\<lparr>Lecture := l\<rparr>) = assignment_ids d"
  "assignment_ids (d\<lparr>Assignment := Assignment d @ [a']\<rparr>) = insert (a_id a') (assignment_ids d)"
  "assignment_ids (pullAssignment cid aid d) = assignment_ids d"
  "assignment_ids (findByIdAndDelete aid d) = assignment_ids d - {aid}"
  by (auto simp add: assignment_ids_def saveCourse_def pullAssignment_def findByIdAndDelete_def)

lemma findAssignment_None_iff: "findAssignment d i = None \<longleftrightarrow> i \<notin> assignment_ids d"
  by (auto simp add: findAssignment_def assignment_ids_def find_None_iff)

lemma handle_ids:
  assumes "\<not> creates aid r" and "aid \<notin> assignment_ids d"
  shows "aid \<notin> assignment_ids (handle r d)"
proof (cases r)
  case (CreateAssignment u b n t)
  with assms(1) have "n \<noteq> aid" by simp
  with assms(2) create_state [of d u b n t] CreateAssignment show ?thesis
    by auto
next
  case (SubmitAssignment u i c fs g p)
  with assms(2) submit_state [of d u i c fs g p] show ?thesis
    by auto
next
  case (GradeSubmission u i b)
  with assms(2) grade_state [of d u i b] show ?thesis
    by auto
next
  case (UpdateAssignment u i b)
  with assms(2) update_state [of d u i b] show ?thesis
    by auto
next
  case (DeleteAssignment u i)
  with assms(2) delete_state [of d u i] show ?thesis
    by auto
next
  case (UploadLecture u b v n)
  with assms(2) lecture_state [of d u b v n] show ?thesis
    by auto
qed (use assms in simp_all)

lemma referenced_saveCourse:
  assumes "c \<in> set (Course d)" and "\<not> referenced cid aid d"
    and "aid \<in> set (assignments c') \<longrightarrow> aid \<in> set (assignments c)" and "c_id c' = c_id c"
  shows "\<not> referenced cid aid (saveCourse c' d)"
  using assms by (auto simp add: referenced_def saveCourse_def)

lemma handle_referenced:
  assumes "\<not> creates aid r" and "\<not> referenced cid aid d"
  shows "\<not> referenced cid aid (handle r d)"
proof (cases r)
  case (CreateAssignment u b n t)
  with assms(1) have n: "n \<noteq> aid" by simp
  from create_state [of d u b n t] show ?thesis
  proof
    assume "snd (createAssignment d u b n t) = d"
    with assms(2) CreateAssignment show ?thesis by simp
  next
    assume "\<exists>a c. findAssignment d n = None \<and> a_id a = n \<and> instructor a = user_id u
        \<and> findCourse d (cr_course b) = Some c \<and> c_instructor c = user_id u
        \<and> fst (createAssignment d u b n t) = Inr a
        \<and> snd (createAssignment d u b n t)
            = saveCourse (c\<lparr>assignments := assignments c @ [n]\<rparr>) (d\<lparr>Assignment := Assignment d @ [a]\<rparr>)"
    then obtain a c where c: "findCourse d (cr_course b) = Some c"
      and eq: "snd (createAssignment d u b n t)
            = saveCourse (c\<lparr>assignments := assignments c @ [n]\<rparr>) (d\<lparr>Assignment := Assignment d @ [a]\<rparr>)"
      by blast
    have "c \<in> set (Course (d\<lparr>Assignment := Assignment d @ [a]\<rparr>))"
      using findCourse_mem [OF c] by simp
    moreover have "\<not> referenced cid aid (d\<lparr>Assignment := Assignment d @ [a]\<rparr>)"
      using assms(2) by (simp add: referenced_def)
    ultimately have "\<not> referenced cid aid (saveCourse (c\<lparr>assignments := assignments c @ [n]\<rparr>) (d\<lparr>Assignment := Assignment d @ [a]\<rparr>))"
      by (rule referenced_saveCourse) (use n in auto)
    with eq CreateAssignment show ?thesis by simp
  qed
next
  case (SubmitAssignment u i c fs g p)
  with assms(2) submit_state [of d u i c fs g p] show ?thesis
    by (auto simp add: referenced_def)
next
  case (GradeSubmission u i b)
  with assms(2) grade_state [of d u i b] show ?thesis
    by (auto simp add: referenced_def)
next
  case (UpdateAssignment u i b)
  with assms(2) update_state [of d u i b] show ?thesis
    by (auto simp add: referenced_def)
next
  case (DeleteAssignment u i)
  with assms(2) delete_state [of d u i] show ?thesis
    by (auto simp add: referenced_def findByIdAndDelete_def pullAssignment_def)
next
  case (UploadLecture u b v n)
  from lecture_state [of d u b v n] consider
    "snd (uploadLecture d u b v n) = d"
    | r where "snd (uploadLecture d u b v n) = d\<lparr>cloudinary := cloudinary d @ [r]\<rparr>"
    | r l c where "findCourse d (lb_course b) = Some c"
        "snd (uploadLecture d u b v n)
           = saveCourse (c\<lparr>lectures := lectures c @ [n]\<rparr>)
               (d\<lparr>cloudinary := cloudinary d @ [r], Lecture := Lecture d @ [l]\<rparr>)"
    by blast
  then show ?thesis
  proof cases
    case 1
    with assms(2) UploadLecture show ?thesis by simp
  next
    case 2
    with assms(2) UploadLecture show ?thesis by (simp add: referenced_def)
  next
    case 3
    have "c \<in> set (Course (d\<lparr>cloudinary := cloudinary d @ [r], Lecture := Lecture d @ [l]\<rparr>))"
      using findCourse_mem [OF 3(1)] by simp
    moreover have "\<not> referenced cid aid (d\<lparr>cloudinary := cloudinary d @ [r], Lecture := Lecture d @ [l]\<rparr>)"
      using assms(2) by (simp add: referenced_def)
    ultimately have "\<not> referenced cid aid
        (saveCourse (c\<lparr>lectures := lectures c @ [n]\<rparr>)
               (d\<lparr>cloudinary := cloudinary d @ [r], Lecture := Lecture d @ [l]\<rparr>))"
      by (rule referenced_saveCourse) auto
    with 3(2) UploadLecture show ?thesis by simp
  qed
qed (use assms in simp_all)


lemma run_ids:
  "\<forall>r\<in>set rs. \<not> creates aid r \<Longrightarrow> aid \<notin> assignment_ids d \<Longrightarrow> aid \<notin> assignment_ids (run rs d)"
  unfolding run_def by (induction rs arbitrary: d) (simp_all add: handle_ids)

lemma run_referenced:
  "\<forall>r\<in>set rs. \<not> creates aid r \<Longrightarrow> \<not> referenced cid aid d \<Longrightarrow> \<not> referenced cid aid (run rs d)"
  unfolding run_def by (induction rs arbitrary: d) (simp_all add: handle_referenced)

lemma listed_are_stored:
  "fst (listAssignments d v cid) = Inr as \<Longrightarrow> a_id ` set as \<subseteq> assignment_ids d"
  by (auto simp add: listAssignments_def Let_def assignment_ids_def split: option.splits if_splits)

lemma find_map_update:
  "find (\<lambda>b. key b = i) xs = Some c \<Longrightarrow> (\<And>b. key (f b) = key b) \<Longrightarrow>
   find (\<lambda>b. key b = i) (map (\<lambda>b. if key b = i then f b else b) xs) = Some (f c)"
  by (induction xs) (auto split: if_splits)

lemma findCourse_pull:
  assumes "findCourse d cid = Some c"
  shows "findCourse (findByIdAndDelete aid (pullAssignment cid aid' d)) cid
           = Some (c\<lparr>assignments := filter (\<lambda>i. i \<noteq> aid') (assignments c)\<rparr>)"
  using assms find_map_update [where key = c_id and i = cid and xs = "Course d" and c = c
      and f = "\<lambda>c. c\<lparr>assignments := filter (\<lambda>i. i \<noteq> aid') (assignments c)\<rparr>"]
  by (simp add: findCourse_def findByIdAndDelete_def pullAssignment_def)

lemma delete_success_cases:
  assumes "deleteAssignment d u aid = (Inr (), d')"
  obtains a c where "findAssignment d aid = Some a" "findCourse d (course a) = Some c"
    "d' = findByIdAndDelete aid (pullAssignment (c_id c) (a_id a) d)"
  using assms delete_state [of d u aid]
  by (auto simp add: deleteAssignment_def split: option.splits if_splits)

text \<open>
  Claim C6. Let assignment a belong to course c and let its deletion succeed. Then the
  course document of c no longer lists a's id, and this stays so, and no listing of
  assignments for any actor and any course returns a, after every sequence of later
  requests to the modelled routes, provided none of them creates an assignment under
  the deleted id (the driver generates a fresh id for every new document).
\<close>

theorem deleted_assignment_never_listed:
  assumes fa: "findAssignment d aid = Some a" and ok: "deleteAssignment d u aid = (Inr (), d')"
  shows "(\<exists>c'. findCourse d' (course a) = Some c' \<and> aid \<notin> set (assignments c'))
       \<and> (\<forall>rs. (\<forall>r\<in>set rs. \<not> creates aid r) \<longrightarrow>
             \<not> referenced (course a) aid (run rs d')
           \<and> (\<forall>v cid as. fst (listAssignments (run rs d') v cid) = Inr as \<longrightarrow> aid \<notin> a_id ` set as))"
proof -
  from ok fa obtain c where fc: "findCourse d (course a) = Some c"
    and d': "d' = findByIdAndDelete aid (pullAssignment (c_id c) (a_id a) d)"
    by (elim delete_success_cases) simp
  have aid: "a_id a = aid" using fa by (rule findAssignment_id)
  have cid: "c_id c = course a" using fc by (rule findCourse_id)
  have gone: "aid \<notin> assignment_ids d'"
    unfolding d' by simp
  have pulled: "\<not> referenced (course a) aid d'"
    unfolding d' by (auto simp add: referenced_def findByIdAndDelete_def pullAssignment_def aid cid)
  have course: "\<exists>c'. findCourse d' (course a) = Some c' \<and> aid \<notin> set (assignments c')"
    unfolding d' cid aid using findCourse_pull [OF fc, of aid aid] by simp
  have later: "\<not> referenced (course a) aid (run rs d')
           \<and> (\<forall>v cid as. fst (listAssignments (run rs d') v cid) = Inr as \<longrightarrow> aid \<notin> a_id ` set as)"
    if quiet: "\<forall>r\<in>set rs. \<not> creates aid r" for rs
  proof
    show "\<not> referenced (course a) aid (run rs d')"
      using quiet pulled by (rule run_referenced)
    have "aid \<notin> assignment_ids (run rs d')"
      using quiet gone by (rule run_ids)
    then show "\<forall>v cid as. fst (listAssignments (run rs d') v cid) = Inr as \<longrightarrow> aid \<notin> a_id ` set as"
      using listed_are_stored by blast
  qed
  from course later show ?thesis by blast
qed


lemma example_delete: "deleteAssignment db3 actor_I A_id = (Inr (), db4)"
  using example_gates(3)
  by (simp add: deleteAssignment_def findAssignment_def findCourse_def findByIdAndDelete_def
        pullAssignment_def example_defs)

theorem deleted_assignment_never_listed_witness:
  "findAssignment db3 A_id = Some assignment_A
   \<and> deleteAssignment db3 actor_I A_id = (Inr (), db4)
   \<and> (\<exists>c'. findCourse db4 (course assignment_A) = Some c' \<and> A_id \<notin> set (assignments c'))
   \<and> \<not> creates A_id (UpdateAssignment actor_I B_id rename)
   \<and> \<not> referenced (course assignment_A) A_id (run [UpdateAssignment actor_I B_id rename] db4)
   \<and> fst (listAssignments db4 actor_S C_id) = Inr [assignment_B]
   \<and> A_id \<notin> a_id ` set [assignment_B]"
proof -
  have fa: "findAssignment db3 A_id = Some assignment_A"
    by (simp add: findAssignment_def db3_def assignment_A_def)
  note gone = deleted_assignment_never_listed [OF fa example_delete]
  have quiet: "\<forall>r\<in>set [UpdateAssignment actor_I B_id rename]. \<not> creates A_id r"
    and none: "\<forall>r\<in>set []. \<not> creates A_id r"
    by simp_all
  have listed: "fst (listAssignments (run [] db4) actor_S C_id) = Inr [assignment_B]"
    by (simp add: run_def listAssignments_def findCourse_def Let_def example_defs)
  from gone quiet have "\<not> referenced (course assignment_A) A_id (run [UpdateAssignment actor_I B_id rename] db4)"
    by blast
  moreover from gone none listed have "A_id \<notin> a_id ` set [assignment_B]"
    by blast
  moreover from gone
  have "\<exists>c'. findCourse db4 (course assignment_A) = Some c' \<and> A_id \<notin> set (assignments c')"
    by blast
  ultimately show ?thesis
    using fa example_delete listed by (simp add: run_def)
qed

section \<open>The instructor stored on an assignment\<close>

lemma saved_instructor:
  assumes "findAssignment d j = Some a" and "a_id a' = a_id a" and "instructor a' = instructor a"
    and "findAssignment d i = Some x" and "findAssignment (saveAssignment a' d) i = Some y"
  shows "instructor y = instructor x"
proof (cases "i = a_id a'")
  case True
  with assms(4,2) have "findAssignment (saveAssignment a' d) i = Some a'"
    by (intro findAssignment_save_same) simp_all
  moreover have "j = a_id a" using assms(1) by (simp add: findAssignment_id)
  ultimately show ?thesis using assms True by simp
next
  case False
  then show ?thesis using assms by (simp add: findAssignment_save_other)
qed

lemma findAssignment_frame [simp]:
  "findAssignment (d\<lparr>Lecture := l\<rparr>) i = findAssignment d i"
  "findAssignment (d\<lparr>Course := c\<rparr>) i = findAssignment d i"
  "findAssignment (pullAssignment cid aid d) i = findAssignment d i"
  by (simp_all add: findAssignment_def pullAssignment_def)

lemma findAssignment_deleted:
  "findAssignment (findByIdAndDelete aid d) i = (if i = aid then None else findAssignment d i)"
  by (simp add: findAssignment_def findByIdAndDelete_def find_filter_ids [where key = a_id])

lemma findAssignment_inserted:
  "findAssignment d i = Some x \<Longrightarrow> findAssignment (d\<lparr>Assignment := Assignment d @ [a]\<rparr>) i = Some x"
  by (simp add: findAssignment_def find_append)

lemma handle_instructor:
  assumes quiet: "\<not> sets_instructor r"
    and before: "findAssignment d i = Some x" and after: "findAssignment (handle r d) i = Some y"
  shows "instructor y = instructor x"
proof (cases r)
  case (CreateAssignment u b n t)
  with create_state [of d u b n t] before after show ?thesis
    by (auto simp add: findAssignment_inserted)
next
  case (SubmitAssignment u j c fs g p)
  from submit_state [of d u j c fs g p] show ?thesis
  proof
    assume "snd (submitAssignment d u j c fs g p) = d"
    with SubmitAssignment before after show ?thesis by simp
  next
    assume "\<exists>a sub. findAssignment d j = Some a
        \<and> snd (submitAssignment d u j c fs g p)
            = saveAssignment (a\<lparr>submissions := submissions a @ [sub]\<rparr>)
                (d\<lparr>cloudinary := cloudinary d @ stored_files fs\<rparr>)"
    then obtain a sub where a: "findAssignment (d\<lparr>cloudinary := cloudinary d @ stored_files fs\<rparr>) j = Some a"
      and eq: "handle r d = saveAssignment (a\<lparr>submissions := submissions a @ [sub]\<rparr>)
                (d\<lparr>cloudinary := cloudinary d @ stored_files fs\<rparr>)"
      using SubmitAssignment by auto
    show ?thesis
      by (rule saved_instructor [OF a _ _ _ after [unfolded eq]]) (use before in simp_all)
  qed
next
  case (GradeSubmission u j b)
  from grade_state [of d u j b] show ?thesis
  proof
    assume "snd (gradeSubmission d u j b) = d"
    with GradeSubmission before after show ?thesis by simp
  next
    assume "\<exists>a ss. findAssignment d j = Some a
        \<and> snd (gradeSubmission d u j b) = saveAssignment (a\<lparr>submissions := ss\<rparr>) d"
    then obtain a ss where a: "findAssignment d j = Some a"
      and eq: "handle r d = saveAssignment (a\<lparr>submissions := ss\<rparr>) d"
      using GradeSubmission by auto
    show ?thesis
      by (rule saved_instructor [OF a _ _ before after [unfolded eq]]) simp_all
  qed
next
  case (UpdateAssignment u j b)
  with quiet have keep: "u_instructor b = None" by simp
  from update_state [of d u j b] show ?thesis
  proof
    assume "snd (updateAssignment d u j b) = d"
    with UpdateAssignment before after show ?thesis by simp
  next
    assume "\<exists>a. findAssignment d j = Some a
        \<and> snd (updateAssignment d u j b) = saveAssignment (apply_update b a) d"
    then obtain a where a: "findAssignment d j = Some a"
      and eq: "handle r d = saveAssignment (apply_update b a) d"
      using UpdateAssignment by auto
    show ?thesis
      by (rule saved_instructor [OF a _ _ before after [unfolded eq]])
         (simp_all add: apply_update_def keep)
  qed
next
  case (DeleteAssignment u j)
  with delete_state [of d u j] before after show ?thesis
    by (auto simp add: findAssignment_deleted split: if_splits)
next
  case (UploadLecture u b v n)
  with lecture_state [of d u b v n] before after show ?thesis
    by auto
qed (use before after in simp_all)

lemma run_instructor:
  assumes "\<forall>r\<in>set rs. \<not> sets_instructor r \<and> \<not> creates i r"
    and "findAssignment d i = Some x" and "findAssignment (run rs d) i = Some y"
  shows "instructor y = instructor x"
  using assms
proof (induction rs arbitrary: d x)
  case Nil
  then show ?case by (simp add: run_def)
next
  case (Cons r rs)
  have rest: "\<forall>r\<in>set rs. \<not> sets_instructor r \<and> \<not> creates i r" and r: "\<not> sets_instructor r"
    using Cons.prems(1) by simp_all
  have after: "findAssignment (run rs (handle r d)) i = Some y"
    using Cons.prems(3) by (simp add: run_def)
  show ?case
  proof (cases "findAssignment (handle r d) i")
    case None
    then have "i \<notin> assignment_ids (handle r d)" by (simp add: findAssignment_None_iff)
    with rest have "i \<notin> assignment_ids (run rs (handle r d))" by (intro run_ids) simp_all
    with after show ?thesis by (simp flip: findAssignment_None_iff)
  next
    case (Some x1)
    with r Cons.prems(2) have "instructor x1 = instructor x" by (intro handle_instructor)
    moreover from rest Some after have "instructor y = instructor x1" by (rule Cons.IH)
    ultimately show ?thesis by simp
  qed
qed

lemma create_success_cases:
  assumes "createAssignment d u b n t = (Inr a, d')"
  obtains c where "findCourse d (cr_course b) = Some c" "c_instructor c = user_id u"
    "instructor a = user_id u" "a_id a = n" "findAssignment d n = None"
    "d' = saveCourse (c\<lparr>assignments := assignments c @ [n]\<rparr>) (d\<lparr>Assignment := Assignment d @ [a]\<rparr>)"
  using assms
  by (auto simp add: createAssignment_def insertAssignment_def Let_def split: option.splits if_splits)

text \<open>
  Claim C5, as the code has it. The assignment that a successful create request stores
  carries as instructor the instructor of its course at that moment. Afterwards the
  stored instructor of an assignment is the same after every sequence of requests to
  the modelled routes in which no update names the \<open>instructor\<close> path in its body and no
  request creates an assignment under the same id.
\<close>

theorem instructor_copied_and_kept:
  "(createAssignment d u b n t = (Inr a, d') \<longrightarrow>
      (\<exists>c. findCourse d (cr_course b) = Some c \<and> instructor a = c_instructor c
          \<and> findAssignment d' n = Some a))
   \<and> ((\<forall>r\<in>set rs. \<not> sets_instructor r \<and> \<not> creates i r)
        \<and> findAssignment d0 i = Some x \<and> findAssignment (run rs d0) i = Some y \<longrightarrow>
      instructor y = instructor x)"
proof (intro conjI impI)
  assume "createAssignment d u b n t = (Inr a, d')"
  then obtain c where c: "findCourse d (cr_course b) = Some c" "c_instructor c = user_id u"
    and a: "instructor a = user_id u" "a_id a = n" "findAssignment d n = None"
    and d': "d' = saveCourse (c\<lparr>assignments := assignments c @ [n]\<rparr>) (d\<lparr>Assignment := Assignment d @ [a]\<rparr>)"
    by (rule create_success_cases)
  have "findAssignment d' n = Some a"
    using a(2,3) by (simp add: d' findAssignment_def find_append)
  with c a show "\<exists>c. findCourse d (cr_course b) = Some c \<and> instructor a = c_instructor c
          \<and> findAssignment d' n = Some a"
    by simp
next
  assume "(\<forall>r\<in>set rs. \<not> sets_instructor r \<and> \<not> creates i r)
        \<and> findAssignment d0 i = Some x \<and> findAssignment (run rs d0) i = Some y"
  then show "instructor y = instructor x"
    using run_instructor by blast
qed

lemma example_create:
  "createAssignment db0 actor_I create_B B_id 10000
     = (Inr assignment_B,
        \<lparr>Course = [course_C\<lparr>assignments := [A_id, B_id]\<rparr>],
         Assignment = [assignment_A, assignment_B], Lecture = [], cloudinary = []\<rparr>)"
proof -
  have "create_valid create_B"
    by (simp add: create_valid_def create_B_def isLength_def presentationSequences_def is_high_surrogate_def is_low_surrogate_def trim_def is_space_def str_def isMongoId_def isHexadecimal_def
          is_hex_def C_id_def)
  moreover have "trim (str ''Quiz'') = (str ''Quiz'')" "trim (str ''Answer the quiz'') = (str ''Answer the quiz'')"
    by (simp_all add: trim_def is_space_def str_def)
  ultimately show ?thesis
    using example_gates(3)
    by (simp add: createAssignment_def insertAssignment_def findAssignment_def findCourse_def
          saveCourse_def Let_def example_defs)
qed

lemma example_rename:
  "run [GradeSubmission actor_I A_id grade_85, UpdateAssignment actor_I A_id rename] db1
     = db0\<lparr>Assignment := [assignment_A\<lparr>title := (str ''Essay 2''),
            submissions := [sub_S\<lparr>marks := Some (str ''85''), feedback := Some (str ''good''), status := Graded\<rparr>]\<rparr>]\<rparr>"
proof -
  have "update_valid rename" and "trim (str ''Essay 2'') = (str ''Essay 2'')"
    by (simp_all add: update_valid_def rename_def no_update_def isLength_def presentationSequences_def is_high_surrogate_def is_low_surrogate_def trim_def is_space_def str_def)
  then show ?thesis
    using example_gates(3) example_bodies(1) example_bodies(5)
    by (simp add: run_def gradeSubmission_def updateAssignment_def apply_update_def
          findAssignment_def saveAssignment_def example_defs)
qed

theorem instructor_copied_and_kept_witness:
  "createAssignment db0 actor_I create_B B_id 10000
     = (Inr assignment_B,
        \<lparr>Course = [course_C\<lparr>assignments := [A_id, B_id]\<rparr>],
         Assignment = [assignment_A, assignment_B], Lecture = [], cloudinary = []\<rparr>)
   \<and> findCourse db0 (cr_course create_B) = Some course_C
   \<and> instructor assignment_B = c_instructor course_C
   \<and> \<not> sets_instructor (GradeSubmission actor_I A_id grade_85)
   \<and> \<not> sets_instructor (UpdateAssignment actor_I A_id rename)
   \<and> findAssignment db1 A_id = Some (assignment_A\<lparr>submissions := [sub_S]\<rparr>)
   \<and> findAssignment
        (run [GradeSubmission actor_I A_id grade_85, UpdateAssignment actor_I A_id rename] db1) A_id
       = Some (assignment_A\<lparr>title := (str ''Essay 2''),
            submissions := [sub_S\<lparr>marks := Some (str ''85''), feedback := Some (str ''good''), status := Graded\<rparr>]\<rparr>)
   \<and> instructor (assignment_A\<lparr>title := (str ''Essay 2''),
            submissions := [sub_S\<lparr>marks := Some (str ''85''), feedback := Some (str ''good''), status := Graded\<rparr>]\<rparr>)
       = instructor (assignment_A\<lparr>submissions := [sub_S]\<rparr>)"
proof -
  let ?rs = "[GradeSubmission actor_I A_id grade_85, UpdateAssignment actor_I A_id rename]"
  let ?y = "assignment_A\<lparr>title := (str ''Essay 2''),
            submissions := [sub_S\<lparr>marks := Some (str ''85''), feedback := Some (str ''good''), status := Graded\<rparr>]\<rparr>"
  have course: "findCourse db0 (cr_course create_B) = Some course_C"
    by (simp add: findCourse_def create_B_def db0_def course_C_def)
  have quiet: "\<forall>r\<in>set ?rs. \<not> sets_instructor r \<and> \<not> creates A_id r"
    by (simp add: rename_def no_update_def)
  have after: "findAssignment (run ?rs db1) A_id = Some ?y"
    by (simp add: example_rename findAssignment_def assignment_A_def)
  from instructor_copied_and_kept
    [of db0 actor_I create_B B_id 10000 assignment_B _ ?rs A_id db1 "assignment_A\<lparr>submissions := [sub_S]\<rparr>" ?y]
    example_create course quiet example_lookups_later(1) after
  have "instructor assignment_B = c_instructor course_C"
    and "instructor ?y = instructor (assignment_A\<lparr>submissions := [sub_S]\<rparr>)"
    by auto
  with example_create course quiet example_lookups_later(1) after show ?thesis
    by simp
qed

text \<open>
  The claim as stated fails: instructor I updates assignment A with a body that names
  the \<open>instructor\<close> path, and line 301 stores J as the assignment's instructor.
\<close>

theorem update_overwrites_instructor_counterexample:
  "findAssignment db0 A_id = Some assignment_A \<and> instructor assignment_A = I_id
   \<and> updateAssignment db0 actor_I A_id take_over
       = (Inr (assignment_A\<lparr>instructor := J_id\<rparr>),
          db0\<lparr>Assignment := [assignment_A\<lparr>instructor := J_id\<rparr>]\<rparr>)
   \<and> J_id \<noteq> I_id"
proof -
  have "update_valid take_over"
    by (simp add: update_valid_def take_over_def no_update_def)
  then have "updateAssignment db0 actor_I A_id take_over
       = (Inr (assignment_A\<lparr>instructor := J_id\<rparr>),
          db0\<lparr>Assignment := [assignment_A\<lparr>instructor := J_id\<rparr>]\<rparr>)"
    using example_gates(3)
    by (simp add: updateAssignment_def apply_update_def findAssignment_def saveAssignment_def
          example_defs)
  moreover have "instructor assignment_A = I_id" "J_id \<noteq> I_id"
    by (simp_all add: assignment_A_def I_id_def J_id_def)
  ultimately show ?thesis
    using example_lookups(1) by simp
qed


section \<open>A second submission by the same student\<close>

lemma find_map_same_key:
  "(\<And>b. key (f b) = key b) \<Longrightarrow>
   find (\<lambda>b. key b = i) (map f xs) = map_option f (find (\<lambda>b. key b = i) xs)"
  by (induction xs) auto



lemma findCourse_pullAssignment:
  "findCourse (pullAssignment cid aid d) i
     = map_option (\<lambda>c. if c_id c = cid then c\<lparr>assignments := filter (\<lambda>i. i \<noteq> aid) (assignments c)\<rparr> else c)
         (findCourse d i)"
proof -
  have "find (\<lambda>b. c_id b = i)
          (map (\<lambda>c. if c_id c = cid then c\<lparr>assignments := filter (\<lambda>i. i \<noteq> aid) (assignments c)\<rparr> else c) (Course d))
        = map_option (\<lambda>c. if c_id c = cid then c\<lparr>assignments := filter (\<lambda>i. i \<noteq> aid) (assignments c)\<rparr> else c)
            (find (\<lambda>b. c_id b = i) (Course d))"
    by (rule find_map_same_key) simp
  then show ?thesis by (simp add: findCourse_def pullAssignment_def)
qed

lemma enrolled_in_frame [simp]:
  "enrolled_in uid cid (d\<lparr>cloudinary := b\<rparr>) = enrolled_in uid cid d"
  "enrolled_in uid cid (d\<lparr>Lecture := l\<rparr>) = enrolled_in uid cid d"
  "enrolled_in uid cid (d\<lparr>Assignment := as\<rparr>) = enrolled_in uid cid d"
  "enrolled_in uid cid (saveAssignment a d) = enrolled_in uid cid d"
  "enrolled_in uid cid (findByIdAndDelete aid d) = enrolled_in uid cid d"
  by (simp_all add: enrolled_in_def findCourse_def saveAssignment_def findByIdAndDelete_def)

lemma enrolled_in_pullAssignment [simp]:
  "enrolled_in uid cid (pullAssignment cid' aid d) = enrolled_in uid cid d"
  by (simp add: enrolled_in_def findCourse_pullAssignment split: option.splits)


lemma has_submitted_frame [simp]:
  "has_submitted uid aid (d\<lparr>cloudinary := b\<rparr>) = has_submitted uid aid d"
  "has_submitted uid aid (d\<lparr>Lecture := l\<rparr>) = has_submitted uid aid d"
  by (simp_all add: has_submitted_def findAssignment_def split: option.splits)

















text \<open>
  The condition on the later requests is needed: once the owner has emptied the
  submissions of A with an update, S submits again.
\<close>

lemma resubmission_after_cleared:
  "unsubmits A_id (UpdateAssignment actor_I A_id clear_submissions)
   \<and> run [UpdateAssignment actor_I A_id clear_submissions] db1 = db0
   \<and> submitAssignment db0 actor_S A_id (str ''answer'') [] 0 0 = (Inr sub_S, db1)"
proof -
  have "update_valid clear_submissions"
    by (simp add: update_valid_def clear_submissions_def no_update_def)
  then have "run [UpdateAssignment actor_I A_id clear_submissions] db1 = db0"
    using example_gates(3)
    by (simp add: run_def updateAssignment_def apply_update_def findAssignment_def
          saveAssignment_def example_defs)
  with first_submit show ?thesis
    by (simp add: clear_submissions_def no_update_def)
qed

end
